theory Spec2Isabelle
  imports Complex_Main
begin

section \<open>Values\<close>

text \<open>
  Python values that cross the invocation layer are JSON-shaped: the payloads the
  operations build, the recorded fallbacks and the results. A Python \<open>str\<close> is a
  \<open>string\<close>, one \<open>char\<close> per code point (code points below 256), so that
  \<open>length\<close> is \<open>len\<close> and \<open>take 50\<close> is the slice \<open>[:50]\<close>. A \<open>dict\<close>
  literal keeps its items in the order written. A \<open>float\<close> is a \<open>real\<close>: only
  its zero test and its identity are used, never its arithmetic.
\<close>

datatype json =
    JNull
  | JBool bool
  | JInt int
  | JFloat real
  | JStr string
  | JList "json list"
  | JDict "(string \<times> json) list"

type_synonym pydict = "(string \<times> json) list"

text \<open>\<open>user_content: Union[str, Dict]\<close> of \<open>call_llm\<close>.\<close>

datatype content = Text string | Dict pydict

text \<open>
  The exceptions that can arise inside \<open>call_llm\<close> and the constructors. All of them
  are subclasses of Python's \<open>Exception\<close>; \<open>Exception msg\<close> is the plain
  \<open>raise Exception(...)\<close> of base.py line 116, \<open>BackendError\<close> stands for whatever
  the openai library raises (network, authentication, timeout).
\<close>

datatype error =
    AttributeError string
  | IndexError
  | TypeError
  | JSONDecodeError string
  | Exception string
  | BackendError string

section \<open>Configuration (config.py)\<close>

record LLMEnhancementConfig =
  azure_openai_endpoint :: string
  azure_openai_key :: string
  azure_openai_version :: string
  parser_deployment_id :: string
  generator_deployment_id :: string
  validator_deployment_id :: string
  optimizer_deployment_id :: string
  use_azure_openai :: bool
  default_temperature :: real
  max_tokens :: int
  timeout :: int

section \<open>External collaborators\<close>

text \<open>
  The standard library's \<open>json.dumps\<close> and \<open>json.loads\<close> and the openai client are
  not code of this repository: they are parameters of the model. \<open>json_loads\<close>
  returns \<open>Inl (JSONDecodeError msg)\<close> on text that is not JSON.
  \<open>chat_completions_create\<close> is \<open>client.chat.completions.create\<close>; its reply is
  the list \<open>response.choices\<close>, each choice reduced to its \<open>message.content\<close>
  (\<open>None\<close> when the backend sent no text).
\<close>

record azure_client =
  azure_endpoint :: string
  api_key :: string
  api_version :: string

record chat_request =
  model :: string
  messages :: "(string \<times> string) list"
  response_format :: "(string \<times> string) list option"
  temperature :: real
  request_max_tokens :: int

type_synonym chat_response = "string option list"

record env =
  json_dumps :: "json \<Rightarrow> string"
  json_loads :: "string \<Rightarrow> error + json"
  AzureOpenAI :: "string \<Rightarrow> string \<Rightarrow> string \<Rightarrow> error + azure_client"
  chat_completions_create :: "azure_client \<Rightarrow> chat_request \<Rightarrow> error + chat_response"

section \<open>The component base class (base.py)\<close>

text \<open>
  The attribute \<open>self.client\<close> has three states: never assigned (reading it raises
  \<open>AttributeError\<close>), assigned \<open>None\<close>, or assigned a client object.
\<close>

datatype client_attr = Unassigned | PyNone | Assigned azure_client

record LLMComponentBase =
  component_name :: string
  deployment_id :: string
  mock_responses :: "string \<rightharpoonup> json"
  client :: client_attr

text \<open>
  \<open>str.lower()\<close> on code points below 256: the capital letters are A to Z (65 to 90)
  and the capital letters of Latin-1 (192 to 222, the multiplication sign 215 apart);
  each is 32 below its small letter.
\<close>

definition lower_char :: "char \<Rightarrow> char" where
  "lower_char c =
     (let n = (of_char c :: nat)
      in if (65 \<le> n \<and> n \<le> 90) \<or> (192 \<le> n \<and> n \<le> 222 \<and> n \<noteq> 215)
         then char_of (n + 32) else c)"

definition lower :: "string \<Rightarrow> string" where
  "lower s = map lower_char s"

text \<open>\<open>getattr(llm_config, name)\<close> for a name ending in \<open>_deployment_id\<close>.\<close>

definition getattr_llm_config :: "LLMEnhancementConfig \<Rightarrow> string \<Rightarrow> error + string" where
  "getattr_llm_config llm_config name =
     (if name = ''parser_deployment_id'' then Inr (parser_deployment_id llm_config)
      else if name = ''generator_deployment_id'' then Inr (generator_deployment_id llm_config)
      else if name = ''validator_deployment_id'' then Inr (validator_deployment_id llm_config)
      else if name = ''optimizer_deployment_id'' then Inr (optimizer_deployment_id llm_config)
      else Inl (AttributeError name))"

text \<open>
  \<open>LLMComponentBase.__init__\<close> (lines 29 to 58). \<open>deployment_id or getattr(...)\<close>
  takes the argument when it is a non-empty string. In the branch where
  \<open>use_azure_openai\<close> holds and the endpoint or the key is empty, only a warning is
  logged and \<open>self.client\<close> is not assigned.
\<close>

definition LLMComponentBase_init ::
  "env \<Rightarrow> LLMEnhancementConfig \<Rightarrow> string \<Rightarrow> string option \<Rightarrow> error + LLMComponentBase" where
  "LLMComponentBase_init e llm_config name dep =
     (case (case dep of
              Some d \<Rightarrow> if d \<noteq> [] then Inr d
                        else getattr_llm_config llm_config (lower name @ ''_deployment_id'')
            | None \<Rightarrow> getattr_llm_config llm_config (lower name @ ''_deployment_id'')) of
        Inl err \<Rightarrow> Inl err
      | Inr d \<Rightarrow>
          Inr \<lparr> component_name = name,
                deployment_id = d,
                mock_responses = Map.empty,
                client =
                  (if use_azure_openai llm_config then
                     if azure_openai_endpoint llm_config = [] \<or> azure_openai_key llm_config = []
                     then Unassigned
                     else (case AzureOpenAI e (azure_openai_endpoint llm_config)
                                    (azure_openai_key llm_config) (azure_openai_version llm_config) of
                             Inr cl \<Rightarrow> Assigned cl
                           | Inl err \<Rightarrow> PyNone)
                   else PyNone) \<rparr>)"

text \<open>\<open>register_mock_response\<close> (lines 147 to 150): \<open>self.mock_responses[key] = response\<close>.\<close>

definition register_mock_response :: "LLMComponentBase \<Rightarrow> string \<Rightarrow> json \<Rightarrow> LLMComponentBase" where
  "register_mock_response self key response =
     self\<lparr> mock_responses := (mock_responses self)(key \<mapsto> response) \<rparr>"

text \<open>
  \<open>_get_mock_response\<close> (lines 125 to 145). \<open>if key and key in self.mock_responses\<close>
  needs a key that is neither \<open>None\<close> nor empty. The conditional expression of line 140
  binds weaker than \<open>+\<close>: the ellipsis is appended only in the truncating branch.
\<close>

definition generic_mock :: "LLMComponentBase \<Rightarrow> string \<Rightarrow> string \<Rightarrow> json" where
  "generic_mock self system_prompt user_content =
     JDict [(''message'', JStr (''This is a mock response from '' @ component_name self)),
            (''system_prompt_length'', JInt (int (length system_prompt))),
            (''user_content_preview'',
               JStr (if length user_content > 50 then take 50 user_content @ ''...''
                     else user_content))]"

definition get_mock_response ::
  "env \<Rightarrow> LLMComponentBase \<Rightarrow> string option \<Rightarrow> string \<Rightarrow> string \<Rightarrow> bool
     \<Rightarrow> (error + json) \<times> LLMComponentBase" where
  "get_mock_response e self key system_prompt user_content json_response =
     (case (case key of
              None \<Rightarrow> None
            | Some k \<Rightarrow> if k \<noteq> [] then mock_responses self k else None) of
        Some mock_data \<Rightarrow> (Inr mock_data, self)
      | None \<Rightarrow>
          (let mock = generic_mock self system_prompt user_content
           in if json_response then (Inr mock, self)
              else (Inr (JStr (json_dumps e mock)), self)))"

text \<open>
  The body of the \<open>try\<close> block of \<open>call_llm\<close> (lines 89 to 118). The inner handler
  catches \<open>JSONDecodeError\<close> only and raises a plain \<open>Exception\<close> from it; a
  \<open>None\<close> content makes \<open>json.loads\<close> raise \<open>TypeError\<close>.
  \<open>x or default\<close> takes \<open>x\<close> when it is neither \<open>None\<close> nor zero.
\<close>

definition build_request ::
  "LLMEnhancementConfig \<Rightarrow> LLMComponentBase \<Rightarrow> string \<Rightarrow> string \<Rightarrow> real option \<Rightarrow> bool
     \<Rightarrow> int option \<Rightarrow> chat_request" where
  "build_request llm_config self system_prompt user_content temp json_response max_toks =
     \<lparr> model = deployment_id self,
       messages = [(''system'', system_prompt), (''user'', user_content)],
       response_format = (if json_response then Some [(''type'', ''json_object'')] else None),
       temperature = (case temp of
                        Some t \<Rightarrow> if t \<noteq> 0 then t else default_temperature llm_config
                      | None \<Rightarrow> default_temperature llm_config),
       request_max_tokens = (case max_toks of
                               Some m \<Rightarrow> if m \<noteq> 0 then m else max_tokens llm_config
                             | None \<Rightarrow> max_tokens llm_config) \<rparr>"

definition call_llm_try ::
  "env \<Rightarrow> LLMEnhancementConfig \<Rightarrow> LLMComponentBase \<Rightarrow> azure_client \<Rightarrow> string \<Rightarrow> string
     \<Rightarrow> real option \<Rightarrow> bool \<Rightarrow> int option \<Rightarrow> error + json" where
  "call_llm_try e llm_config self cl system_prompt user_content temp json_response max_toks =
     (case chat_completions_create e cl
             (build_request llm_config self system_prompt user_content temp json_response max_toks) of
        Inl err \<Rightarrow> Inl err
      | Inr response \<Rightarrow>
          (case response of
             [] \<Rightarrow> Inl IndexError
           | content # _ \<Rightarrow>
               if json_response then
                 (case content of
                    None \<Rightarrow> Inl TypeError
                  | Some txt \<Rightarrow>
                      (case json_loads e txt of
                         Inr v \<Rightarrow> Inr v
                       | Inl (JSONDecodeError msg) \<Rightarrow>
                           Inl (Exception (''Invalid JSON response from LLM: '' @ msg))
                       | Inl err \<Rightarrow> Inl err))
               else Inr (case content of None \<Rightarrow> JNull | Some txt \<Rightarrow> JStr txt)))"

text \<open>
  \<open>call_llm\<close> (lines 60 to 123). The dictionary payload is serialized first. The test
  \<open>self.client is None or not llm_config.use_azure_openai\<close> reads \<open>self.client\<close>
  first. The handler \<open>except Exception\<close> of line 120 encloses the whole \<open>try\<close>
  block, the \<open>raise\<close> of line 116 included, and answers with the mock response.
  The component is returned with the result: the method receives it as \<open>self\<close>.
\<close>

definition call_llm ::
  "env \<Rightarrow> LLMEnhancementConfig \<Rightarrow> LLMComponentBase \<Rightarrow> string \<Rightarrow> content \<Rightarrow> real option \<Rightarrow> bool
     \<Rightarrow> int option \<Rightarrow> string option \<Rightarrow> (error + json) \<times> LLMComponentBase" where
  "call_llm e llm_config self system_prompt user_content temp json_response max_toks mock_response_key =
     (let user_content = (case user_content of
                            Dict d \<Rightarrow> json_dumps e (JDict d)
                          | Text s \<Rightarrow> s)
      in case client self of
           Unassigned \<Rightarrow> (Inl (AttributeError ''client''), self)
         | PyNone \<Rightarrow>
             get_mock_response e self mock_response_key system_prompt user_content json_response
         | Assigned cl \<Rightarrow>
             if \<not> use_azure_openai llm_config then
               get_mock_response e self mock_response_key system_prompt user_content json_response
             else
               (case call_llm_try e llm_config self cl system_prompt user_content temp
                       json_response max_toks of
                  Inr v \<Rightarrow> (Inr v, self)
                | Inl err \<Rightarrow>
                    get_mock_response e self mock_response_key system_prompt user_content
                      json_response))"

section \<open>The domain components\<close>

text \<open>
  \<open>template_files: Dict[str, str]\<close> is a list of (filename, content) pairs;
  \<open>str_dict\<close> reads it as the dictionary value it is.
\<close>

type_synonym template_files = "(string \<times> string) list"

definition str_dict :: "template_files \<Rightarrow> pydict" where
  "str_dict template_files = map (\<lambda>(k, v). (k, JStr v)) template_files"

subsection \<open>NaturalLanguageParser (parsers/parser.py)\<close>

text \<open>
  Lines 92 to 94 of \<open>extract_context\<close>: the existing resources, when the argument is
  neither \<open>None\<close> nor an empty dictionary, are serialized and appended to the text.
\<close>

definition extract_context_user_content :: "env \<Rightarrow> string \<Rightarrow> pydict option \<Rightarrow> string" where
  \<open>extract_context_user_content e txt existing_resources =
     (case existing_resources of
        None \<Rightarrow> txt
      | Some d \<Rightarrow>
          if d \<noteq> [] then txt @ ''

Existing resources: '' @ json_dumps e (JDict d)
          else txt)\<close>

text \<open>\<open>NaturalLanguageParser.parse_infrastructure_requirements\<close> (parsers/parser.py lines 23 to 58).\<close>

definition parse_infrastructure_requirements ::
  "env \<Rightarrow> LLMEnhancementConfig \<Rightarrow> LLMComponentBase \<Rightarrow> string
     \<Rightarrow> (error + json) \<times> LLMComponentBase" where
  \<open>parse_infrastructure_requirements e llm_config self txt =
     (let system_prompt = ''
        You are an expert infrastructure architect that specializes in extracting clear, structured 
        infrastructure requirements from natural language descriptions. Your task is to:
        
        1. Identify the cloud provider(s) mentioned or implied
        2. Extract infrastructure resources needed (VMs, networks, storage, etc.)
        3. Identify relationships between resources
        4. Extract configuration parameters mentioned
        5. Identify security and compliance requirements
        6. Note any performance or cost constraints
        
        Format your response as a structured JSON object with the following keys:
        - provider: The cloud provider (aws, azure, gcp, etc.)
        - resources: Array of resources with their types and configurations
        - relationships: How resources connect or depend on each other
        - security: Security requirements and considerations
        - constraints: Any performance or cost constraints
        - metadata: Any additional information or context
        ''
      in call_llm e llm_config self system_prompt
           (Text txt)
           (None) True (None) (Some ''parse_requirements''))\<close>

text \<open>\<open>NaturalLanguageParser.extract_context\<close> (parsers/parser.py lines 60 to 101).\<close>

definition extract_context ::
  "env \<Rightarrow> LLMEnhancementConfig \<Rightarrow> LLMComponentBase \<Rightarrow> string \<Rightarrow> pydict option
     \<Rightarrow> (error + json) \<times> LLMComponentBase" where
  \<open>extract_context e llm_config self txt existing_resources =
     (let system_prompt = ''
        As an infrastructure context specialist, analyze the user\'s request and extract contextual information.
        Consider any implicit or explicit references to:
        
        1. Development environment (dev, test, prod)
        2. Regional preferences or requirements
        3. Team or project context
        4. Time-based requirements (temporary vs permanent)
        5. Integration with existing systems
        6. Business objectives driving the request
        
        Format your response as a structured JSON object with the following keys:
        - environment: The target environment (dev, test, prod, etc.)
        - region: Geographical region or regions
        - project: Project or team context
        - timeline: Temporary or permanent, and any timing requirements
        - integration: Systems to integrate with
        - objectives: Business goals driving the request
        - implicit_needs: Requirements that weren\'t explicitly stated but are implied
        ''
      in call_llm e llm_config self system_prompt
           (Text (extract_context_user_content e txt existing_resources))
           (None) True (None) (Some ''extract_context''))\<close>

text \<open>The recorded responses of \<open>NaturalLanguageParser._register_default_mocks\<close> and the constructor.\<close>

definition parse_requirements_mock :: json where
  \<open>parse_requirements_mock =
     JDict [
       (''provider'', JStr ''aws''),
       (''resources'', JList [
         JDict [
           (''type'', JStr ''vpc''),
           (''name'', JStr ''main-vpc''),
           (''cidr'', JStr ''10.0.0.0/16''),
           (''subnets'', JList [
             JDict [
               (''name'', JStr ''public-1''),
               (''cidr'', JStr ''10.0.1.0/24''),
               (''az'', JStr ''us-west-2a'')],
             JDict [
               (''name'', JStr ''private-1''),
               (''cidr'', JStr ''10.0.2.0/24''),
               (''az'', JStr ''us-west-2a'')]])],
         JDict [
           (''type'', JStr ''ec2''),
           (''name'', JStr ''web-server''),
           (''instance_type'', JStr ''t3.medium''),
           (''count'', JInt 2)]]),
       (''relationships'', JList [
         JDict [
           (''source'', JStr ''web-server''),
           (''target'', JStr ''public-1''),
           (''type'', JStr ''deployed_in'')]]),
       (''security'', JDict [
         (''encryption'', JStr ''required''),
         (''access_controls'', JList [
           JStr ''restrict_ssh_access'',
           JStr ''use_security_groups''])]),
       (''constraints'', JDict [
         (''budget'', JStr ''low_cost''),
         (''performance'', JStr ''moderate'')]),
       (''metadata'', JDict [
         (''purpose'', JStr ''Web application hosting''),
         (''requestor'', JStr ''Development team'')])]\<close>

definition extract_context_mock :: json where
  \<open>extract_context_mock =
     JDict [
       (''environment'', JStr ''dev''),
       (''region'', JStr ''us-west-2''),
       (''project'', JStr ''web-app-modernization''),
       (''timeline'', JStr ''permanent''),
       (''integration'', JList [
         JStr ''existing_database'',
         JStr ''authentication_service'']),
       (''objectives'', JList [
         JStr ''improve_scalability'',
         JStr ''reduce_operational_cost'']),
       (''implicit_needs'', JList [
         JStr ''high_availability'',
         JStr ''auto_scaling''])]\<close>

definition NaturalLanguageParser_register_default_mocks :: "LLMComponentBase \<Rightarrow> LLMComponentBase" where
  "NaturalLanguageParser_register_default_mocks self =
     register_mock_response
       (register_mock_response self ''parse_requirements'' parse_requirements_mock)
       ''extract_context'' extract_context_mock"

definition NaturalLanguageParser_init ::
  "env \<Rightarrow> LLMEnhancementConfig \<Rightarrow> string option \<Rightarrow> error + LLMComponentBase" where
  "NaturalLanguageParser_init e llm_config dep =
     (case LLMComponentBase_init e llm_config ''parser'' dep of
        Inl err \<Rightarrow> Inl err
      | Inr self \<Rightarrow> Inr (NaturalLanguageParser_register_default_mocks self))"

subsection \<open>TemplateGenerator (generators/generator.py)\<close>

text \<open>\<open>TemplateGenerator.generate_terraform_template\<close> (generators/generator.py lines 23 to 55).\<close>

definition generate_terraform_template ::
  "env \<Rightarrow> LLMEnhancementConfig \<Rightarrow> LLMComponentBase \<Rightarrow> pydict
     \<Rightarrow> (error + json) \<times> LLMComponentBase" where
  \<open>generate_terraform_template e llm_config self requirements =
     (let system_prompt = ''
        You are an expert Terraform developer. Generate high-quality, production-ready Terraform code 
        based on the provided requirements. Follow these guidelines:
        
        1. Use modular structure with best practices
        2. Include appropriate variables and outputs
        3. Follow security best practices
        4. Add clear comments explaining purpose of resources
        5. Ensure resource naming follows conventions
        6. Include appropriate provider configuration
        
        Return a JSON object with filenames as keys and file content as values.
        Include at minimum: main.tf, variables.tf, outputs.tf
        ''
      in call_llm e llm_config self system_prompt
           (Dict requirements)
           (Some 0.2) True (Some 4000) (Some ''generate_template''))\<close>

text \<open>\<open>TemplateGenerator.analyze_template\<close> (generators/generator.py lines 57 to 92).\<close>

definition analyze_template ::
  "env \<Rightarrow> LLMEnhancementConfig \<Rightarrow> LLMComponentBase \<Rightarrow> template_files
     \<Rightarrow> (error + json) \<times> LLMComponentBase" where
  \<open>analyze_template e llm_config self template_files =
     (let system_prompt = ''
        As a Terraform code analyst, review the provided template files and provide a comprehensive 
        analysis including:
        
        1. List of resources being created
        2. Required variables and their purpose
        3. Outputs provided by the template
        4. Estimated deployment complexity
        5. Potential cost considerations
        6. Security considerations and recommendations
        
        Format your response as a structured JSON object with the following keys:
        - resources: Array of resources with types and configurations
        - variables: Array of variables with types, defaults, and descriptions
        - outputs: Array of outputs with descriptions
        - complexity: Assessment of deployment complexity
        - cost: Cost considerations
        - security: Security considerations and recommendations
        ''
      in call_llm e llm_config self system_prompt
           (Dict (str_dict template_files))
           (None) True (None) (Some ''analyze_template''))\<close>

text \<open>\<open>TemplateGenerator.generate_documentation\<close> (generators/generator.py lines 94 to 131).\<close>

definition generate_documentation ::
  "env \<Rightarrow> LLMEnhancementConfig \<Rightarrow> LLMComponentBase \<Rightarrow> template_files \<Rightarrow> pydict
     \<Rightarrow> (error + json) \<times> LLMComponentBase" where
  \<open>generate_documentation e llm_config self template_files analysis =
     (let system_prompt = ''
        You are a technical documentation specialist. Create comprehensive Markdown documentation 
        for the Terraform template. Include:
        
        1. Overview of architecture
        2. Prerequisites
        3. Usage instructions
        4. Variable descriptions with examples
        5. Output descriptions
        6. Deployment instructions
        7. Management and maintenance guidance
        
        Format your response as Markdown text.
        ''
      in call_llm e llm_config self system_prompt
           (Dict [(''template_files'', JDict (str_dict template_files)), (''analysis'', JDict analysis)])
           (Some 0.2) False (None) (Some ''generate_documentation''))\<close>

text \<open>\<open>TemplateGenerator.customize_template\<close> (generators/generator.py lines 133 to 169).\<close>

definition customize_template ::
  "env \<Rightarrow> LLMEnhancementConfig \<Rightarrow> LLMComponentBase \<Rightarrow> template_files \<Rightarrow> pydict
     \<Rightarrow> (error + json) \<times> LLMComponentBase" where
  \<open>customize_template e llm_config self template_files customizations =
     (let system_prompt = ''
        As a Terraform customization expert, modify the provided template files according to the
        customization requirements. Ensure that:
        
        1. All requested changes are implemented
        2. The modified code maintains best practices
        3. Code remains readable and well-documented
        4. Changes are highlighted in comments
        
        Return a JSON object with filenames as keys and the updated file content as values.
        Include all original files even if they weren\'t modified.
        ''
      in call_llm e llm_config self system_prompt
           (Dict [(''template_files'', JDict (str_dict template_files)), (''customizations'', JDict customizations)])
           (Some 0.2) True (Some 4000) (Some ''customize_template''))\<close>

text \<open>The recorded responses of \<open>TemplateGenerator._register_default_mocks\<close> and the constructor.\<close>

definition generate_template_mock :: json where
  \<open>generate_template_mock =
     JDict [
       (''main.tf'', JStr ''
provider "aws" {
  region = var.region
}

resource "aws_vpc" "main" {
  cidr_block = var.vpc_cidr
  
  tags = {
    Name = var.vpc_name
  }
}

resource "aws_subnet" "public" {
  vpc_id     = aws_vpc.main.id
  cidr_block = var.public_subnet_cidr
  availability_zone = "${var.region}a"
  
  tags = {
    Name = "${var.vpc_name}-public"
  }
}

resource "aws_subnet" "private" {
  vpc_id     = aws_vpc.main.id
  cidr_block = var.private_subnet_cidr
  availability_zone = "${var.region}a"
  
  tags = {
    Name = "${var.vpc_name}-private"
  }
}

resource "aws_instance" "web" {
  count         = var.instance_count
  ami           = var.ami_id
  instance_type = var.instance_type
  subnet_id     = aws_subnet.public.id
  
  tags = {
    Name = "web-${count.index + 1}"
  }
}
''),
       (''variables.tf'', JStr ''
variable "region" {
  description = "AWS region to deploy resources"
  type        = string
  default     = "us-west-2"
}

variable "vpc_cidr" {
  description = "CIDR block for the VPC"
  type        = string
  default     = "10.0.0.0/16"
}

variable "vpc_name" {
  description = "Name of the VPC"
  type        = string
  default     = "main-vpc"
}

variable "public_subnet_cidr" {
  description = "CIDR block for the public subnet"
  type        = string
  default     = "10.0.1.0/24"
}

variable "private_subnet_cidr" {
  description = "CIDR block for the private subnet"
  type        = string
  default     = "10.0.2.0/24"
}

variable "instance_type" {
  description = "EC2 instance type"
  type        = string
  default     = "t3.medium"
}

variable "instance_count" {
  description = "Number of EC2 instances to deploy"
  type        = number
  default     = 2
}

variable "ami_id" {
  description = "AMI ID for EC2 instances"
  type        = string
  default     = "ami-0c55b159cbfafe1f0"
}
''),
       (''outputs.tf'', JStr ''
output "vpc_id" {
  description = "ID of the created VPC"
  value       = aws_vpc.main.id
}

output "public_subnet_id" {
  description = "ID of the public subnet"
  value       = aws_subnet.public.id
}

output "private_subnet_id" {
  description = "ID of the private subnet"
  value       = aws_subnet.private.id
}

output "instance_ids" {
  description = "IDs of the created EC2 instances"
  value       = aws_instance.web[*].id
}
'')]\<close>

definition analyze_template_mock :: json where
  \<open>analyze_template_mock =
     JDict [
       (''resources'', JList [
         JDict [
           (''type'', JStr ''aws_vpc''),
           (''name'', JStr ''main''),
           (''count'', JInt 1)],
         JDict [
           (''type'', JStr ''aws_subnet''),
           (''name'', JStr ''public''),
           (''count'', JInt 1)],
         JDict [
           (''type'', JStr ''aws_subnet''),
           (''name'', JStr ''private''),
           (''count'', JInt 1)],
         JDict [
           (''type'', JStr ''aws_instance''),
           (''name'', JStr ''web''),
           (''count'', JStr ''variable'')]]),
       (''variables'', JList [
         JDict [
           (''name'', JStr ''region''),
           (''type'', JStr ''string''),
           (''default'', JStr ''us-west-2''),
           (''description'', JStr ''AWS region to deploy resources'')],
         JDict [
           (''name'', JStr ''vpc_cidr''),
           (''type'', JStr ''string''),
           (''default'', JStr ''10.0.0.0/16''),
           (''description'', JStr ''CIDR block for the VPC'')]]),
       (''outputs'', JList [
         JDict [
           (''name'', JStr ''vpc_id''),
           (''description'', JStr ''ID of the created VPC'')],
         JDict [
           (''name'', JStr ''public_subnet_id''),
           (''description'', JStr ''ID of the public subnet'')]]),
       (''complexity'', JDict [
         (''level'', JStr ''medium''),
         (''explanation'', JStr ''Basic infrastructure with multiple related resources'')]),
       (''cost'', JDict [
         (''estimated_monthly'', JStr ''$50-100''),
         (''main_cost_factors'', JList [
           JStr ''EC2 instances'',
           JStr ''data transfer''])]),
       (''security'', JDict [
         (''concerns'', JList [
           JStr ''Public subnet accessibility'',
           JStr ''No security groups defined'']),
         (''recommendations'', JList [
           JStr ''Add security groups'',
           JStr ''Implement network ACLs''])])]\<close>

definition generate_documentation_mock :: json where
  \<open>generate_documentation_mock =
     JStr ''
# AWS VPC with EC2 Instances

## Overview

This Terraform template deploys a basic AWS VPC architecture with public and private subnets, along with EC2 instances for a web application.

## Prerequisites

- AWS account
- Terraform v1.0+
- AWS CLI configured

## Usage

```bash
terraform init
terraform plan -out=tfplan
terraform apply tfplan
```

## Variables

| Name | Description | Type | Default |
|------|-------------|------|---------|
| region | AWS region to deploy resources | string | us-west-2 |
| vpc_cidr | CIDR block for the VPC | string | 10.0.0.0/16 |
| vpc_name | Name of the VPC | string | main-vpc |
| ... | ... | ... | ... |

## Architecture

The architecture consists of:
- A VPC with CIDR 10.0.0.0/16
- Public subnet in the first availability zone
- Private subnet in the first availability zone
- EC2 instances in the public subnet

## Maintenance

Remember to destroy resources when no longer needed:

```bash
terraform destroy
```
''\<close>

definition customize_template_mock :: json where
  \<open>customize_template_mock =
     JDict [
       (''main.tf'', JStr ''
provider "aws" {
  region = var.region
}

# Modified VPC with DNS support as requested
resource "aws_vpc" "main" {
  cidr_block           = var.vpc_cidr
  enable_dns_support   = true
  enable_dns_hostnames = true
  
  tags = {
    Name        = var.vpc_name
    Environment = var.environment
  }
}

# Added Internet Gateway as requested
resource "aws_internet_gateway" "igw" {
  vpc_id = aws_vpc.main.id
  
  tags = {
    Name = "${var.vpc_name}-igw"
  }
}

resource "aws_subnet" "public" {
  vpc_id                  = aws_vpc.main.id
  cidr_block              = var.public_subnet_cidr
  availability_zone       = "${var.region}a"
  map_public_ip_on_launch = true
  
  tags = {
    Name = "${var.vpc_name}-public"
  }
}

resource "aws_subnet" "private" {
  vpc_id     = aws_vpc.main.id
  cidr_block = var.private_subnet_cidr
  availability_zone = "${var.region}a"
  
  tags = {
    Name = "${var.vpc_name}-private"
  }
}

# Added security group as requested
resource "aws_security_group" "web_sg" {
  name        = "${var.vpc_name}-web-sg"
  description = "Security group for web servers"
  vpc_id      = aws_vpc.main.id
  
  ingress {
    from_port   = 80
    to_port     = 80
    protocol    = "tcp"
    cidr_blocks = ["0.0.0.0/0"]
    description = "Allow HTTP"
  }
  
  ingress {
    from_port   = 443
    to_port     = 443
    protocol    = "tcp"
    cidr_blocks = ["0.0.0.0/0"]
    description = "Allow HTTPS"
  }
  
  egress {
    from_port   = 0
    to_port     = 0
    protocol    = "-1"
    cidr_blocks = ["0.0.0.0/0"]
  }
}

resource "aws_instance" "web" {
  count         = var.instance_count
  ami           = var.ami_id
  instance_type = var.instance_type
  subnet_id     = aws_subnet.public.id
  security_groups = [aws_security_group.web_sg.id]
  
  tags = {
    Name = "web-${count.index + 1}"
    Environment = var.environment
  }
}
''),
       (''variables.tf'', JStr ''
variable "region" {
  description = "AWS region to deploy resources"
  type        = string
  default     = "us-west-2"
}

variable "vpc_cidr" {
  description = "CIDR block for the VPC"
  type        = string
  default     = "10.0.0.0/16"
}

variable "vpc_name" {
  description = "Name of the VPC"
  type        = string
  default     = "main-vpc"
}

variable "public_subnet_cidr" {
  description = "CIDR block for the public subnet"
  type        = string
  default     = "10.0.1.0/24"
}

variable "private_subnet_cidr" {
  description = "CIDR block for the private subnet"
  type        = string
  default     = "10.0.2.0/24"
}

variable "instance_type" {
  description = "EC2 instance type"
  type        = string
  default     = "t3.medium"
}

variable "instance_count" {
  description = "Number of EC2 instances to deploy"
  type        = number
  default     = 2
}

variable "ami_id" {
  description = "AMI ID for EC2 instances"
  type        = string
  default     = "ami-0c55b159cbfafe1f0"
}

# Added new variable as requested
variable "environment" {
  description = "Deployment environment"
  type        = string
  default     = "dev"
}
''),
       (''outputs.tf'', JStr ''
output "vpc_id" {
  description = "ID of the created VPC"
  value       = aws_vpc.main.id
}

output "public_subnet_id" {
  description = "ID of the public subnet"
  value       = aws_subnet.public.id
}

output "private_subnet_id" {
  description = "ID of the private subnet"
  value       = aws_subnet.private.id
}

output "instance_ids" {
  description = "IDs of the created EC2 instances"
  value       = aws_instance.web[*].id
}

# Added new output as requested
output "security_group_id" {
  description = "ID of the web security group"
  value       = aws_security_group.web_sg.id
}
'')]\<close>

definition TemplateGenerator_register_default_mocks :: "LLMComponentBase \<Rightarrow> LLMComponentBase" where
  "TemplateGenerator_register_default_mocks self =
     register_mock_response
       (register_mock_response
       (register_mock_response
       (register_mock_response self ''generate_template'' generate_template_mock)
       ''analyze_template'' analyze_template_mock)
       ''generate_documentation'' generate_documentation_mock)
       ''customize_template'' customize_template_mock"

definition TemplateGenerator_init ::
  "env \<Rightarrow> LLMEnhancementConfig \<Rightarrow> string option \<Rightarrow> error + LLMComponentBase" where
  "TemplateGenerator_init e llm_config dep =
     (case LLMComponentBase_init e llm_config ''generator'' dep of
        Inl err \<Rightarrow> Inl err
      | Inr self \<Rightarrow> Inr (TemplateGenerator_register_default_mocks self))"

subsection \<open>IntelligentValidator (validators/validator.py)\<close>

text \<open>\<open>IntelligentValidator.validate_terraform\<close> (validators/validator.py lines 23 to 62).\<close>

definition validate_terraform ::
  "env \<Rightarrow> LLMEnhancementConfig \<Rightarrow> LLMComponentBase \<Rightarrow> template_files
     \<Rightarrow> (error + json) \<times> LLMComponentBase" where
  \<open>validate_terraform e llm_config self template_files =
     (let system_prompt = ''
        As a Terraform validator, analyze the provided template files for errors, issues, and
        best practice violations. Check for:
        
        1. Syntax errors
        2. Semantic errors (resource dependencies, etc.)
        3. Security issues (overly permissive policies, etc.)
        4. Best practice violations
        5. Potential bugs or edge cases
        
        Format your response as a structured JSON object with these sections:
        - errors: Array of critical issues that must be fixed
        - warnings: Array of issues that should be addressed but aren\'t critical
        - suggestions: Array of suggestions for improvement
        
        Each issue should include:
        - file: The filename
        - location: Line number or resource identifier
        - severity: One of "critical", "high", "medium", "low"
        - message: Description of the issue
        - recommendation: How to fix the issue
        ''
      in call_llm e llm_config self system_prompt
           (Dict (str_dict template_files))
           (Some 0.1) True (None) (Some ''validate_terraform''))\<close>

text \<open>\<open>IntelligentValidator.suggest_fixes\<close> (validators/validator.py lines 64 to 101).\<close>

definition suggest_fixes ::
  "env \<Rightarrow> LLMEnhancementConfig \<Rightarrow> LLMComponentBase \<Rightarrow> template_files \<Rightarrow> pydict
     \<Rightarrow> (error + json) \<times> LLMComponentBase" where
  \<open>suggest_fixes e llm_config self template_files validation_results =
     (let system_prompt = ''
        As a Terraform expert, fix the issues identified in the validation results. 
        Modify the provided template files to:
        
        1. Fix all errors
        2. Address security concerns
        3. Implement best practices
        4. Improve code quality
        
        Return a JSON object with filenames as keys and the updated file content as values.
        Include all original files even if they weren\'t modified.
        Add comments before each fix explaining what was changed and why.
        ''
      in call_llm e llm_config self system_prompt
           (Dict [(''template_files'', JDict (str_dict template_files)), (''validation_results'', JDict validation_results)])
           (Some 0.2) True (Some 4000) (Some ''suggest_fixes''))\<close>

text \<open>\<open>IntelligentValidator.check_best_practices\<close> (validators/validator.py lines 103 to 138).\<close>

definition check_best_practices ::
  "env \<Rightarrow> LLMEnhancementConfig \<Rightarrow> LLMComponentBase \<Rightarrow> template_files
     \<Rightarrow> (error + json) \<times> LLMComponentBase" where
  \<open>check_best_practices e llm_config self template_files =
     (let system_prompt = ''
        As a Terraform best practices expert, analyze the provided template files and provide:
        
        1. Overall best practice score (0-100)
        2. Analysis of code structure and organization
        3. Analysis of resource naming conventions
        4. Analysis of variable use and defaults
        5. Security posture assessment
        6. Specific recommendations for improvement
        
        Format your response as a structured JSON object with the following sections:
        - score: Overall score (0-100)
        - structure: Assessment of code structure
        - naming: Assessment of naming conventions
        - variables: Assessment of variable usage
        - security: Assessment of security practices
        - recommendations: Specific improvement recommendations
        ''
      in call_llm e llm_config self system_prompt
           (Dict (str_dict template_files))
           (Some 0.1) True (None) (Some ''check_best_practices''))\<close>

text \<open>\<open>IntelligentValidator.check_security\<close> (validators/validator.py lines 140 to 173).\<close>

definition check_security ::
  "env \<Rightarrow> LLMEnhancementConfig \<Rightarrow> LLMComponentBase \<Rightarrow> template_files
     \<Rightarrow> (error + json) \<times> LLMComponentBase" where
  \<open>check_security e llm_config self template_files =
     (let system_prompt = ''
        As a cloud security expert, analyze the provided Terraform files for security issues.
        Focus on:
        
        1. Insecure configurations (open security groups, public access, etc.)
        2. Missing encryption settings
        3. Over-permissive IAM policies
        4. Logging and monitoring gaps
        5. Compliance issues (HIPAA, PCI, etc.)
        
        Format your response as a structured JSON object with the following sections:
        - findings: Array of security findings
        - compliance: Compliance assessment
        - risk_score: Overall risk score (high, medium, low)
        - recommendations: Security recommendations
        ''
      in call_llm e llm_config self system_prompt
           (Dict (str_dict template_files))
           (Some 0.1) True (None) (Some ''check_security''))\<close>

text \<open>The recorded responses of \<open>IntelligentValidator._register_default_mocks\<close> and the constructor.\<close>

definition validate_terraform_mock :: json where
  \<open>validate_terraform_mock =
     JDict [
       (''errors'', JList [
         JDict [
           (''file'', JStr ''main.tf''),
           (''location'', JStr ''aws_instance.web''),
           (''severity'', JStr ''critical''),
           (''message'', JStr ''Security group not specified for EC2 instance''),
           (''recommendation'', JStr ''Add security_groups attribute to aws_instance.web resource'')]]),
       (''warnings'', JList [
         JDict [
           (''file'', JStr ''main.tf''),
           (''location'', JStr ''aws_vpc.main''),
           (''severity'', JStr ''medium''),
           (''message'', JStr ''Missing DNS support configuration''),
           (''recommendation'', JStr ''Add enable_dns_support and enable_dns_hostnames attributes'')],
         JDict [
           (''file'', JStr ''variables.tf''),
           (''location'', JStr ''variable.ami_id''),
           (''severity'', JStr ''medium''),
           (''message'', JStr ''AMI ID hardcoded as default''),
           (''recommendation'', JStr ''Remove default value and require explicit ami_id input'')]]),
       (''suggestions'', JList [
         JDict [
           (''file'', JStr ''main.tf''),
           (''location'', JStr ''general''),
           (''severity'', JStr ''low''),
           (''message'', JStr ''Missing resource tagging strategy''),
           (''recommendation'', JStr ''Add consistent tags to all resources including environment and owner'')],
         JDict [
           (''file'', JStr ''outputs.tf''),
           (''location'', JStr ''general''),
           (''severity'', JStr ''low''),
           (''message'', JStr ''Missing descriptions for outputs''),
           (''recommendation'', JStr ''Add descriptive descriptions to all outputs'')]])]\<close>

definition suggest_fixes_mock :: json where
  \<open>suggest_fixes_mock =
     JDict [
       (''main.tf'', JStr ''
provider "aws" {
  region = var.region
}

# Added DNS support as recommended
resource "aws_vpc" "main" {
  cidr_block           = var.vpc_cidr
  enable_dns_support   = true
  enable_dns_hostnames = true
  
  # Added consistent tagging as suggested
  tags = {
    Name        = var.vpc_name
    Environment = var.environment
    Owner       = "terraform"
  }
}

resource "aws_subnet" "public" {
  vpc_id     = aws_vpc.main.id
  cidr_block = var.public_subnet_cidr
  availability_zone = "${var.region}a"
  
  # Added consistent tagging as suggested
  tags = {
    Name        = "${var.vpc_name}-public"
    Environment = var.environment
    Owner       = "terraform"
  }
}

resource "aws_subnet" "private" {
  vpc_id     = aws_vpc.main.id
  cidr_block = var.private_subnet_cidr
  availability_zone = "${var.region}a"
  
  # Added consistent tagging as suggested
  tags = {
    Name        = "${var.vpc_name}-private"
    Environment = var.environment
    Owner       = "terraform"
  }
}

# Added security group for EC2 instances
resource "aws_security_group" "web_sg" {
  name        = "${var.vpc_name}-web-sg"
  description = "Security group for web servers"
  vpc_id      = aws_vpc.main.id
  
  ingress {
    from_port   = 80
    to_port     = 80
    protocol    = "tcp"
    cidr_blocks = ["0.0.0.0/0"]
    description = "Allow HTTP"
  }
  
  ingress {
    from_port   = 443
    to_port     = 443
    protocol    = "tcp"
    cidr_blocks = ["0.0.0.0/0"]
    description = "Allow HTTPS"
  }
  
  egress {
    from_port   = 0
    to_port     = 0
    protocol    = "-1"
    cidr_blocks = ["0.0.0.0/0"]
  }
  
  # Added consistent tagging as suggested
  tags = {
    Name        = "${var.vpc_name}-web-sg"
    Environment = var.environment
    Owner       = "terraform"
  }
}

# Fixed critical issue - added security group to instances
resource "aws_instance" "web" {
  count         = var.instance_count
  ami           = var.ami_id
  instance_type = var.instance_type
  subnet_id     = aws_subnet.public.id
  security_groups = [aws_security_group.web_sg.id]
  
  # Added consistent tagging as suggested
  tags = {
    Name        = "web-${count.index + 1}"
    Environment = var.environment
    Owner       = "terraform"
  }
}
''),
       (''variables.tf'', JStr ''
variable "region" {
  description = "AWS region to deploy resources"
  type        = string
  default     = "us-west-2"
}

variable "vpc_cidr" {
  description = "CIDR block for the VPC"
  type        = string
  default     = "10.0.0.0/16"
}

variable "vpc_name" {
  description = "Name of the VPC"
  type        = string
  default     = "main-vpc"
}

variable "public_subnet_cidr" {
  description = "CIDR block for the public subnet"
  type        = string
  default     = "10.0.1.0/24"
}

variable "private_subnet_cidr" {
  description = "CIDR block for the private subnet"
  type        = string
  default     = "10.0.2.0/24"
}

variable "instance_type" {
  description = "EC2 instance type"
  type        = string
  default     = "t3.medium"
}

variable "instance_count" {
  description = "Number of EC2 instances to deploy"
  type        = number
  default     = 2
}

# Fixed issue - removed hardcoded AMI ID
variable "ami_id" {
  description = "AMI ID for EC2 instances"
  type        = string
  # No default - require explicit input
}

variable "environment" {
  description = "Deployment environment (dev, test, prod)"
  type        = string
  default     = "dev"
}
''),
       (''outputs.tf'', JStr ''
# Added improved descriptions as suggested
output "vpc_id" {
  description = "ID of the created VPC, use for reference in other resources"
  value       = aws_vpc.main.id
}

output "public_subnet_id" {
  description = "ID of the public subnet, use for internet-facing resources"
  value       = aws_subnet.public.id
}

output "private_subnet_id" {
  description = "ID of the private subnet, use for internal resources"
  value       = aws_subnet.private.id
}

output "instance_ids" {
  description = "IDs of the created EC2 instances, use for management and monitoring"
  value       = aws_instance.web[*].id
}

output "security_group_id" {
  description = "ID of the web security group, use for additional security rules"
  value       = aws_security_group.web_sg.id
}
'')]\<close>

definition check_best_practices_mock :: json where
  \<open>check_best_practices_mock =
     JDict [
       (''score'', JInt 68),
       (''structure'', JDict [
         (''assessment'', JStr ''Moderate''),
         (''strengths'', JList [
           JStr ''Clear resource organization'',
           JStr ''Logical file separation'']),
         (''weaknesses'', JList [
           JStr ''Limited use of modules'',
           JStr ''No locals for repeated values''])]),
       (''naming'', JDict [
         (''assessment'', JStr ''Good''),
         (''strengths'', JList [
           JStr ''Consistent resource naming'',
           JStr ''Descriptive variable names'']),
         (''weaknesses'', JList [
           JStr ''No naming convention for tags''])]),
       (''variables'', JDict [
         (''assessment'', JStr ''Fair''),
         (''strengths'', JList [
           JStr ''Good use of variable typing'',
           JStr ''Appropriate defaults'']),
         (''weaknesses'', JList [
           JStr ''Missing validation blocks'',
           JStr ''Some hardcoded values''])]),
       (''security'', JDict [
         (''assessment'', JStr ''Poor''),
         (''strengths'', JList [
           JStr ''No overly permissive IAM policies'']),
         (''weaknesses'', JList [
           JStr ''Missing security groups'',
           JStr ''Open ingress rules'',
           JStr ''No encryption configured''])]),
       (''recommendations'', JList [
         JStr ''Implement a module structure for reusable components'',
         JStr ''Add variable validation blocks'',
         JStr ''Implement a consistent tagging strategy'',
         JStr ''Improve security group configuration'',
         JStr ''Add encryption for sensitive data'',
         JStr ''Use data sources for AMI lookup instead of hardcoded values''])]\<close>

definition check_security_mock :: json where
  \<open>check_security_mock =
     JDict [
       (''findings'', JList [
         JDict [
           (''severity'', JStr ''high''),
           (''description'', JStr ''Missing security group for EC2 instances''),
           (''impact'', JStr ''Instances could be accessible from any source''),
           (''recommendation'', JStr ''Add security group with restricted ingress'')],
         JDict [
           (''severity'', JStr ''medium''),
           (''description'', JStr ''Public subnet with instances directly exposed''),
           (''impact'', JStr ''Increased attack surface for instances''),
           (''recommendation'', JStr ''Use private subnets with NAT gateway or bastion host'')],
         JDict [
           (''severity'', JStr ''medium''),
           (''description'', JStr ''No encryption in transit configuration''),
           (''impact'', JStr ''Data transmitted to/from instances could be intercepted''),
           (''recommendation'', JStr ''Configure TLS and ensure HTTPS usage'')]]),
       (''compliance'', JDict [
         (''hipaa'', JStr ''non_compliant''),
         (''pci'', JStr ''non_compliant''),
         (''iso27001'', JStr ''partially_compliant''),
         (''issues'', JList [
           JStr ''Missing encryption'',
           JStr ''Insufficient access controls'',
           JStr ''Inadequate logging''])]),
       (''risk_score'', JStr ''high''),
       (''recommendations'', JList [
         JStr ''Implement security groups with principle of least privilege'',
         JStr ''Configure encryption in transit and at rest'',
         JStr ''Implement a bastion host for secure access'',
         JStr ''Enable detailed CloudTrail logging'',
         JStr ''Add AWS Config rules for continuous compliance monitoring''])]\<close>

definition IntelligentValidator_register_default_mocks :: "LLMComponentBase \<Rightarrow> LLMComponentBase" where
  "IntelligentValidator_register_default_mocks self =
     register_mock_response
       (register_mock_response
       (register_mock_response
       (register_mock_response self ''validate_terraform'' validate_terraform_mock)
       ''suggest_fixes'' suggest_fixes_mock)
       ''check_best_practices'' check_best_practices_mock)
       ''check_security'' check_security_mock"

definition IntelligentValidator_init ::
  "env \<Rightarrow> LLMEnhancementConfig \<Rightarrow> string option \<Rightarrow> error + LLMComponentBase" where
  "IntelligentValidator_init e llm_config dep =
     (case LLMComponentBase_init e llm_config ''validator'' dep of
        Inl err \<Rightarrow> Inl err
      | Inr self \<Rightarrow> Inr (IntelligentValidator_register_default_mocks self))"

subsection \<open>ResourceOptimizer (optimizers/optimizer.py)\<close>

text \<open>
  The payload of the three operations with an optional parameter (lines 53 to 56, 97 to
  100 and 184 to 187): \<open>json.dumps({...both keys...}) if parameter else
  json.dumps({"template_files": template_files})\<close>. The test is Python's truth value
  of the parameter: \<open>None\<close>, the number zero and the empty dictionary are false.
\<close>

definition optimize_cost_user_content :: "env \<Rightarrow> template_files \<Rightarrow> real option \<Rightarrow> string" where
  "optimize_cost_user_content e template_files budget_constraint =
     (if (case budget_constraint of None \<Rightarrow> False | Some b \<Rightarrow> b \<noteq> 0)
      then json_dumps e (JDict [(''template_files'', JDict (str_dict template_files)),
                                (''budget_constraint'', JFloat (the budget_constraint))])
      else json_dumps e (JDict [(''template_files'', JDict (str_dict template_files))]))"

definition optimize_performance_user_content :: "env \<Rightarrow> template_files \<Rightarrow> pydict option \<Rightarrow> string" where
  "optimize_performance_user_content e template_files performance_targets =
     (if (case performance_targets of None \<Rightarrow> False | Some d \<Rightarrow> d \<noteq> [])
      then json_dumps e (JDict [(''template_files'', JDict (str_dict template_files)),
                                (''performance_targets'', JDict (the performance_targets))])
      else json_dumps e (JDict [(''template_files'', JDict (str_dict template_files))]))"

definition right_size_resources_user_content :: "env \<Rightarrow> template_files \<Rightarrow> pydict option \<Rightarrow> string" where
  "right_size_resources_user_content e template_files utilization_data =
     (if (case utilization_data of None \<Rightarrow> False | Some d \<Rightarrow> d \<noteq> [])
      then json_dumps e (JDict [(''template_files'', JDict (str_dict template_files)),
                                (''utilization_data'', JDict (the utilization_data))])
      else json_dumps e (JDict [(''template_files'', JDict (str_dict template_files))]))"

text \<open>\<open>ResourceOptimizer.optimize_cost\<close> (optimizers/optimizer.py lines 23 to 65).\<close>

definition optimize_cost ::
  "env \<Rightarrow> LLMEnhancementConfig \<Rightarrow> LLMComponentBase \<Rightarrow> template_files \<Rightarrow> real option
     \<Rightarrow> (error + json) \<times> LLMComponentBase" where
  \<open>optimize_cost e llm_config self template_files budget_constraint =
     (let system_prompt = ''
        As a cloud cost optimization expert, analyze the provided Terraform template and suggest 
        optimizations to reduce cost without compromising essential functionality. Consider:
        
        1. Right-sizing resources
        2. Using reserved instances or savings plans
        3. Utilizing spot instances where appropriate
        4. Optimizing storage tiers
        5. Implementing auto-scaling
        6. Improving resource utilization
        
        Return a JSON object with the following sections:
        - current_estimated_cost: Estimated monthly cost for the current configuration
        - optimized_estimated_cost: Estimated monthly cost after optimization
        - savings_percentage: Percentage of cost reduction
        - recommendations: Array of specific recommendations
        - template_files: Modified template files with cost optimizations
        ''
      in call_llm e llm_config self system_prompt
           (Text (optimize_cost_user_content e template_files budget_constraint))
           (Some 0.2) True (Some 4000) (Some ''optimize_cost''))\<close>

text \<open>\<open>ResourceOptimizer.optimize_performance\<close> (optimizers/optimizer.py lines 67 to 109).\<close>

definition optimize_performance ::
  "env \<Rightarrow> LLMEnhancementConfig \<Rightarrow> LLMComponentBase \<Rightarrow> template_files \<Rightarrow> pydict option
     \<Rightarrow> (error + json) \<times> LLMComponentBase" where
  \<open>optimize_performance e llm_config self template_files performance_targets =
     (let system_prompt = ''
        As a cloud performance optimization expert, analyze the provided Terraform template and suggest 
        optimizations to improve performance. Consider:
        
        1. Resource sizing and capabilities
        2. Network configuration and latency
        3. Distributed architecture patterns
        4. Caching strategies
        5. Database optimizations
        6. Load balancing and auto-scaling
        
        Return a JSON object with the following sections:
        - current_performance_assessment: Assessment of current performance characteristics
        - optimized_performance_assessment: Expected performance after optimization
        - improvement_summary: Summary of expected improvements
        - recommendations: Array of specific recommendations
        - template_files: Modified template files with performance optimizations
        ''
      in call_llm e llm_config self system_prompt
           (Text (optimize_performance_user_content e template_files performance_targets))
           (Some 0.2) True (Some 4000) (Some ''optimize_performance''))\<close>

text \<open>\<open>ResourceOptimizer.suggest_architecture\<close> (optimizers/optimizer.py lines 111 to 150).\<close>

definition suggest_architecture ::
  "env \<Rightarrow> LLMEnhancementConfig \<Rightarrow> LLMComponentBase \<Rightarrow> pydict
     \<Rightarrow> (error + json) \<times> LLMComponentBase" where
  \<open>suggest_architecture e llm_config self requirements =
     (let system_prompt = ''
        As a cloud architect, suggest an optimal architecture based on the provided requirements.
        Your response should include:
        
        1. Overall architecture recommendation
        2. Key components and services
        3. Communication patterns
        4. Scalability approach
        5. Security considerations
        6. Cost estimates
        7. ASCII diagram representation of the architecture
        
        Return a JSON object with the following sections:
        - architecture_overview: Description of the overall architecture
        - components: Array of key components and services
        - communication: Description of communication patterns
        - scalability: Approach to scaling
        - security: Security considerations
        - cost: Cost estimates
        - diagram: ASCII diagram representation
        - terraform_example: Example Terraform snippet for a key component
        ''
      in call_llm e llm_config self system_prompt
           (Dict requirements)
           (Some 0.2) True (None) (Some ''suggest_architecture''))\<close>

text \<open>\<open>ResourceOptimizer.right_size_resources\<close> (optimizers/optimizer.py lines 152 to 196).\<close>

definition right_size_resources ::
  "env \<Rightarrow> LLMEnhancementConfig \<Rightarrow> LLMComponentBase \<Rightarrow> template_files \<Rightarrow> pydict option
     \<Rightarrow> (error + json) \<times> LLMComponentBase" where
  \<open>right_size_resources e llm_config self template_files utilization_data =
     (let system_prompt = ''
        As a resource optimization expert, analyze the provided Terraform template and suggest 
        right-sizing optimizations. Consider:
        
        1. Instance types and sizes
        2. Storage allocations
        3. Database instance sizes
        4. Network throughput allocations
        5. Container resource limits
        
        If utilization data is provided, use it to inform your recommendations.
        Otherwise, base recommendations on best practices and typical usage patterns.
        
        Return a JSON object with the following sections:
        - current_resources: Assessment of current resource allocations
        - right_sized_resources: Recommended resource allocations
        - efficiency_improvement: Expected efficiency improvement percentage
        - recommendations: Array of specific recommendations
        - template_files: Modified template files with right-sized resources
        ''
      in call_llm e llm_config self system_prompt
           (Text (right_size_resources_user_content e template_files utilization_data))
           (Some 0.2) True (Some 4000) (Some ''right_size_resources''))\<close>

text \<open>The recorded responses of \<open>ResourceOptimizer._register_default_mocks\<close> and the constructor.\<close>

definition optimize_cost_mock :: json where
  \<open>optimize_cost_mock =
     JDict [
       (''current_estimated_cost'', JFloat 342.5),
       (''optimized_estimated_cost'', JFloat 214.75),
       (''savings_percentage'', JFloat 37.3),
       (''recommendations'', JList [
         JDict [
           (''category'', JStr ''Compute''),
           (''recommendation'', JStr ''Switch t3.medium instances to t4g.small with ARM architecture''),
           (''impact'', JStr ''~$45 monthly savings''),
           (''risk'', JStr ''Low; requires ARM-compatible applications'')],
         JDict [
           (''category'', JStr ''Reserved Instances''),
           (''recommendation'', JStr ''Purchase 1-year reserved instances for predictable workloads''),
           (''impact'', JStr ''~$60 monthly savings''),
           (''risk'', JStr ''Medium; requires 1-year commitment'')],
         JDict [
           (''category'', JStr ''Storage''),
           (''recommendation'', JStr ''Move older logs to S3 Glacier Deep Archive''),
           (''impact'', JStr ''~$22 monthly savings''),
           (''risk'', JStr ''Low; reduced retrieval speed for archived logs'')]]),
       (''template_files'', JDict [
         (''main.tf'', JStr ''
provider "aws" {
  region = var.region
}

# Optimized instance type for cost savings
resource "aws_instance" "web" {
  count         = var.instance_count
  # Changed from t3.medium to t4g.small (ARM) for cost optimization
  ami           = var.arm_ami_id
  instance_type = "t4g.small"
  subnet_id     = aws_subnet.public.id
  security_groups = [aws_security_group.web_sg.id]
  
  # Added purchase option to use Spot Instances where possible
  instance_market_options {
    market_type = "spot"
    spot_options {
      max_price = "0.012"
    }
  }
  
  tags = {
    Name = "web-${count.index + 1}"
    Environment = var.environment
  }
}

resource "aws_vpc" "main" {
  cidr_block           = var.vpc_cidr
  enable_dns_support   = true
  enable_dns_hostnames = true
  
  tags = {
    Name = var.vpc_name
    Environment = var.environment
  }
}

# Remaining resources unchanged
''),
         (''variables.tf'', JStr ''
# Added ARM AMI variable for cost optimization
variable "arm_ami_id" {
  description = "ARM-based AMI ID for EC2 instances (for cost optimization)"
  type        = string
  default     = "ami-0123456789abcdef"
}

# Original variables retained
variable "region" {
  description = "AWS region to deploy resources"
  type        = string
  default     = "us-west-2"
}

# Remaining variables unchanged
'')])]\<close>

definition optimize_performance_mock :: json where
  \<open>optimize_performance_mock =
     JDict [
       (''current_performance_assessment'', JDict [
         (''compute'', JStr ''Moderate; t3.medium instances with baseline performance''),
         (''storage'', JStr ''Low; standard EBS volumes with no provisioned IOPS''),
         (''network'', JStr ''Moderate; instances in same availability zone''),
         (''database'', JStr ''Not present in template'')]),
       (''optimized_performance_assessment'', JDict [
         (''compute'', JStr ''High; c5.large instances with optimized CPU performance''),
         (''storage'', JStr ''High; EBS gp3 volumes with provisioned IOPS''),
         (''network'', JStr ''High; enhanced networking enabled, optimized placement''),
         (''database'', JStr ''Not applicable'')]),
       (''improvement_summary'', JStr ''Expected ~40% improvement in application response time, ~60% improvement in throughput''),
       (''recommendations'', JList [
         JDict [
           (''category'', JStr ''Compute''),
           (''recommendation'', JStr ''Switch to compute-optimized c5.large instances''),
           (''impact'', JStr ''Improved CPU performance for web applications''),
           (''cost_implication'', JStr ''~15% increase in instance cost'')],
         JDict [
           (''category'', JStr ''Storage''),
           (''recommendation'', JStr ''Use EBS gp3 volumes with 4000 IOPS''),
           (''impact'', JStr ''Faster disk I/O for applications''),
           (''cost_implication'', JStr ''~10% increase in storage cost'')],
         JDict [
           (''category'', JStr ''Networking''),
           (''recommendation'', JStr ''Enable enhanced networking with ENA''),
           (''impact'', JStr ''Higher throughput, lower latency''),
           (''cost_implication'', JStr ''No additional cost'')]]),
       (''template_files'', JDict [
         (''main.tf'', JStr ''
provider "aws" {
  region = var.region
}

# Performance-optimized instance configuration
resource "aws_instance" "web" {
  count         = var.instance_count
  # Changed to compute-optimized instance
  ami           = var.ami_id
  instance_type = "c5.large"
  subnet_id     = aws_subnet.public.id
  security_groups = [aws_security_group.web_sg.id]
  
  # Enable enhanced networking
  root_block_device {
    volume_type = "gp3"
    volume_size = 100
    iops        = 4000
    throughput  = 125
  }
  
  # Enable detailed monitoring
  monitoring = true
  
  # Enable enhanced networking
  credit_specification {
    cpu_credits = "unlimited"
  }
  
  tags = {
    Name = "web-${count.index + 1}"
    Environment = var.environment
  }
}

# Create a placement group for low-latency networking
resource "aws_placement_group" "web" {
  name     = "web-placement-group"
  strategy = "cluster"
}

# Rest of resources unchanged
'')])]\<close>

definition suggest_architecture_mock :: json where
  \<open>suggest_architecture_mock =
     JDict [
       (''architecture_overview'', JStr ''Scalable, highly available web application architecture on AWS with multi-AZ deployment''),
       (''components'', JList [
         JDict [
           (''name'', JStr ''VPC''),
           (''type'', JStr ''aws_vpc''),
           (''description'', JStr ''Isolated network environment'')],
         JDict [
           (''name'', JStr ''Application Load Balancer''),
           (''type'', JStr ''aws_lb''),
           (''description'', JStr ''Distributes traffic to web instances'')],
         JDict [
           (''name'', JStr ''Auto Scaling Group''),
           (''type'', JStr ''aws_autoscaling_group''),
           (''description'', JStr ''Dynamically scales EC2 instances'')],
         JDict [
           (''name'', JStr ''RDS Multi-AZ''),
           (''type'', JStr ''aws_db_instance''),
           (''description'', JStr ''Highly available database'')],
         JDict [
           (''name'', JStr ''ElastiCache''),
           (''type'', JStr ''aws_elasticache_cluster''),
           (''description'', JStr ''In-memory caching for performance'')],
         JDict [
           (''name'', JStr ''S3 Bucket''),
           (''type'', JStr ''aws_s3_bucket''),
           (''description'', JStr ''Static asset storage'')]]),
       (''communication'', JStr ''Web traffic enters through ALB, which routes to web instances in multiple AZs. Instances connect to RDS for data and ElastiCache for caching.''),
       (''scalability'', JStr ''Auto Scaling Groups handle compute scaling. RDS can be scaled vertically. ElastiCache cluster can be scaled horizontally.''),
       (''security'', JStr ''Security groups restrict traffic. Web tier in public subnets, database in private subnets. All data encrypted in transit and at rest.''),
       (''cost'', JStr ''Estimated $1,000-1,500/month based on medium traffic requirements''),
       (''diagram'', JStr ''
    +--------------------+
    |                    |
    |  Internet Gateway  |
    |                    |
    +--------+-----------+
             |
             v
    +--------+-----------+
    |                    |
    |  Application LB    |
    |                    |
    +--------+-----------+
             |
             v
+------------+------------+
|            |            |
|  Auto      |  Auto      |
|  Scaling   |  Scaling   |
|  Group     |  Group     |
|  (AZ-1)    |  (AZ-2)    |
|            |            |
+------------+------------+
      |             |
      v             v
+-----+------+ +----+-------+
|            | |            |
| ElastiCache| | ElastiCache|
| (AZ-1)     | | (AZ-2)     |
|            | |            |
+-----+------+ +----+-------+
      |             |
      v             v
+-----+------+ +----+-------+
|            | |            |
| RDS Primary| | RDS Standby|
| (AZ-1)     | | (AZ-2)     |
|            | |            |
+------------+ +------------+
''),
       (''terraform_example'', JStr ''
# Auto Scaling Group configuration example
resource "aws_autoscaling_group" "web" {
  name                      = "${var.environment}-web-asg"
  max_size                  = 10
  min_size                  = 2
  health_check_grace_period = 300
  health_check_type         = "ELB"
  desired_capacity          = 4
  force_delete              = true
  launch_configuration      = aws_launch_configuration.web.name
  vpc_zone_identifier       = [aws_subnet.private_1.id, aws_subnet.private_2.id]
  target_group_arns         = [aws_lb_target_group.web.arn]
  
  tag {
    key                 = "Name"
    value               = "${var.environment}-web"
    propagate_at_launch = true
  }
}
'')]\<close>

definition right_size_resources_mock :: json where
  \<open>right_size_resources_mock =
     JDict [
       (''current_resources'', JDict [
         (''ec2_instances'', JStr ''t3.medium (2 vCPU, 4GB RAM)''),
         (''ebs_volumes'', JStr ''100GB standard''),
         (''rds_instance'', JStr ''Not present'')]),
       (''right_sized_resources'', JDict [
         (''ec2_instances'', JStr ''t3.small (2 vCPU, 2GB RAM)''),
         (''ebs_volumes'', JStr ''50GB gp3''),
         (''rds_instance'', JStr ''Not applicable'')]),
       (''efficiency_improvement'', JStr ''45%''),
       (''recommendations'', JList [
         JDict [
           (''resource'', JStr ''aws_instance.web''),
           (''current'', JStr ''t3.medium''),
           (''recommendation'', JStr ''t3.small''),
           (''justification'', JStr ''CPU utilization < 20%, memory utilization < 30%'')],
         JDict [
           (''resource'', JStr ''root_block_device''),
           (''current'', JStr ''100GB''),
           (''recommendation'', JStr ''50GB''),
           (''justification'', JStr ''Disk usage < 20GB on all instances'')]]),
       (''template_files'', JDict [
         (''main.tf'', JStr ''
provider "aws" {
  region = var.region
}

resource "aws_vpc" "main" {
  cidr_block           = var.vpc_cidr
  enable_dns_support   = true
  enable_dns_hostnames = true
  
  tags = {
    Name = var.vpc_name
    Environment = var.environment
  }
}

# Other VPC resources unchanged

# Right-sized instance based on utilization data
resource "aws_instance" "web" {
  count         = var.instance_count
  ami           = var.ami_id
  # Right-sized from t3.medium to t3.small based on utilization data
  instance_type = "t3.small"
  subnet_id     = aws_subnet.public.id
  security_groups = [aws_security_group.web_sg.id]
  
  root_block_device {
    # Right-sized from 100GB to 50GB based on utilization data
    volume_size = 50
    volume_type = "gp3"
  }
  
  tags = {
    Name = "web-${count.index + 1}"
    Environment = var.environment
  }
}
'')])]\<close>

definition ResourceOptimizer_register_default_mocks :: "LLMComponentBase \<Rightarrow> LLMComponentBase" where
  "ResourceOptimizer_register_default_mocks self =
     register_mock_response
       (register_mock_response
       (register_mock_response
       (register_mock_response self ''optimize_cost'' optimize_cost_mock)
       ''optimize_performance'' optimize_performance_mock)
       ''suggest_architecture'' suggest_architecture_mock)
       ''right_size_resources'' right_size_resources_mock"

definition ResourceOptimizer_init ::
  "env \<Rightarrow> LLMEnhancementConfig \<Rightarrow> string option \<Rightarrow> error + LLMComponentBase" where
  "ResourceOptimizer_init e llm_config dep =
     (case LLMComponentBase_init e llm_config ''optimizer'' dep of
        Inl err \<Rightarrow> Inl err
      | Inr self \<Rightarrow> Inr (ResourceOptimizer_register_default_mocks self))"

section \<open>Constructing and driving components\<close>

text \<open>
  The five classes a component can be an instance of, and its construction. After
  construction a component changes only through \<open>register_mock_response\<close>:
  \<open>register_all\<close> applies a list of registrations in order.
\<close>

datatype component_class =
    Base string
  | NaturalLanguageParser
  | TemplateGenerator
  | IntelligentValidator
  | ResourceOptimizer

fun construct ::
  "env \<Rightarrow> LLMEnhancementConfig \<Rightarrow> component_class \<Rightarrow> string option \<Rightarrow> error + LLMComponentBase" where
  "construct e llm_config (Base name) dep = LLMComponentBase_init e llm_config name dep"
| "construct e llm_config NaturalLanguageParser dep = NaturalLanguageParser_init e llm_config dep"
| "construct e llm_config TemplateGenerator dep = TemplateGenerator_init e llm_config dep"
| "construct e llm_config IntelligentValidator dep = IntelligentValidator_init e llm_config dep"
| "construct e llm_config ResourceOptimizer dep = ResourceOptimizer_init e llm_config dep"

fun register_all :: "LLMComponentBase \<Rightarrow> (string \<times> json) list \<Rightarrow> LLMComponentBase" where
  "register_all self [] = self"
| "register_all self ((key, response) # rest) =
     register_all (register_mock_response self key response) rest"

text \<open>One call of one of the fourteen operations, with its arguments.\<close>

datatype op_call =
    ParseInfrastructureRequirements string
  | ExtractContext string "pydict option"
  | GenerateTerraformTemplate pydict
  | AnalyzeTemplate template_files
  | GenerateDocumentation template_files pydict
  | CustomizeTemplate template_files pydict
  | ValidateTerraform template_files
  | SuggestFixes template_files pydict
  | CheckBestPractices template_files
  | CheckSecurity template_files
  | OptimizeCost template_files "real option"
  | OptimizePerformance template_files "pydict option"
  | SuggestArchitecture pydict
  | RightSizeResources template_files "pydict option"

fun invoke ::
  "env \<Rightarrow> LLMEnhancementConfig \<Rightarrow> LLMComponentBase \<Rightarrow> op_call
     \<Rightarrow> (error + json) \<times> LLMComponentBase" where
  "invoke e c self (ParseInfrastructureRequirements t) = parse_infrastructure_requirements e c self t"
| "invoke e c self (ExtractContext t r) = extract_context e c self t r"
| "invoke e c self (GenerateTerraformTemplate r) = generate_terraform_template e c self r"
| "invoke e c self (AnalyzeTemplate f) = analyze_template e c self f"
| "invoke e c self (GenerateDocumentation f a) = generate_documentation e c self f a"
| "invoke e c self (CustomizeTemplate f cu) = customize_template e c self f cu"
| "invoke e c self (ValidateTerraform f) = validate_terraform e c self f"
| "invoke e c self (SuggestFixes f v) = suggest_fixes e c self f v"
| "invoke e c self (CheckBestPractices f) = check_best_practices e c self f"
| "invoke e c self (CheckSecurity f) = check_security e c self f"
| "invoke e c self (OptimizeCost f b) = optimize_cost e c self f b"
| "invoke e c self (OptimizePerformance f p) = optimize_performance e c self f p"
| "invoke e c self (SuggestArchitecture r) = suggest_architecture e c self r"
| "invoke e c self (RightSizeResources f u) = right_size_resources e c self f u"

text \<open>The \<open>mock_response_key\<close> each operation passes to \<open>call_llm\<close>.\<close>

fun fallback_key :: "op_call \<Rightarrow> string" where
  "fallback_key (ParseInfrastructureRequirements t) = ''parse_requirements''"
| "fallback_key (ExtractContext t r) = ''extract_context''"
| "fallback_key (GenerateTerraformTemplate r) = ''generate_template''"
| "fallback_key (AnalyzeTemplate f) = ''analyze_template''"
| "fallback_key (GenerateDocumentation f a) = ''generate_documentation''"
| "fallback_key (CustomizeTemplate f cu) = ''customize_template''"
| "fallback_key (ValidateTerraform f) = ''validate_terraform''"
| "fallback_key (SuggestFixes f v) = ''suggest_fixes''"
| "fallback_key (CheckBestPractices f) = ''check_best_practices''"
| "fallback_key (CheckSecurity f) = ''check_security''"
| "fallback_key (OptimizeCost f b) = ''optimize_cost''"
| "fallback_key (OptimizePerformance f p) = ''optimize_performance''"
| "fallback_key (SuggestArchitecture r) = ''suggest_architecture''"
| "fallback_key (RightSizeResources f u) = ''right_size_resources''"

text \<open>
  A sequence of operation calls on one component, each against whatever the
  collaborators do at that moment; the component after the last call. A call that
  raises leaves the component to the next call as it is.
\<close>

fun invoke_all ::
  "LLMEnhancementConfig \<Rightarrow> LLMComponentBase \<Rightarrow> (env \<times> op_call) list \<Rightarrow> LLMComponentBase" where
  "invoke_all c self [] = self"
| "invoke_all c self ((e, oc) # rest) = invoke_all c (snd (invoke e c self oc)) rest"

text \<open>
  The condition of line 86 under which \<open>call_llm\<close> answers from the registry without
  calling the backend: \<open>self.client is None or not llm_config.use_azure_openai\<close>, the
  attribute being assigned.
\<close>

definition fallback_path :: "LLMEnhancementConfig \<Rightarrow> LLMComponentBase \<Rightarrow> bool" where
  "fallback_path llm_config self \<longleftrightarrow>
     client self = PyNone \<or> (client self \<noteq> Unassigned \<and> \<not> use_azure_openai llm_config)"

text \<open>Reading a result: the keys of a dictionary, one of its entries, the items of a list.\<close>

fun dict_keys :: "json \<Rightarrow> string list" where
  "dict_keys (JDict kvs) = map fst kvs"
| "dict_keys _ = []"

fun dict_get :: "json \<Rightarrow> string \<Rightarrow> json option" where
  "dict_get (JDict kvs) k = map_of kvs k"
| "dict_get _ k = None"

fun list_items :: "json \<Rightarrow> json list" where
  "list_items (JList xs) = xs"
| "list_items _ = []"

section \<open>Concrete collaborators for the scenarios\<close>

text \<open>
  \<open>py_dumps\<close> follows \<open>json.dumps\<close> with its default arguments: items separated by
  a comma and a space, keys from values by a colon and a space, strings quoted with
  the escapes of \<open>ensure_ascii\<close>. How a float prints is left to a parameter;
  \<open>float_repr\<close> prints the decimal digits of the value, a sign before them and at
  least one digit after the point (\<open>500.0\<close>, \<open>499.99\<close>, \<open>-0.5\<close>), as Python
  does for a float between \<open>0.0001\<close> and \<open>1e16\<close> in size whose shortest
  decimal form ends; the scenarios serialize no other float.
\<close>

definition hex_digit :: "nat \<Rightarrow> char" where
  "hex_digit n = (if n < 10 then char_of (48 + n) else char_of (87 + n))"

definition escape_char :: "char \<Rightarrow> string" where
  "escape_char c =
     (let n = (of_char c :: nat) in
      if n = 34 then [CHR 0x5C, CHR 0x22]
      else if n = 92 then [CHR 0x5C, CHR 0x5C]
      else if n = 10 then [CHR 0x5C, CHR ''n'']
      else if n = 13 then [CHR 0x5C, CHR ''r'']
      else if n = 9 then [CHR 0x5C, CHR ''t'']
      else if n = 8 then [CHR 0x5C, CHR ''b'']
      else if n = 12 then [CHR 0x5C, CHR ''f'']
      else if 32 \<le> n \<and> n \<le> 126 then [c]
      else [CHR 0x5C, CHR ''u'', CHR ''0'', CHR ''0'', hex_digit (n div 16), hex_digit (n mod 16)])"

definition quote_str :: "string \<Rightarrow> string" where
  "quote_str s = [CHR 0x22] @ concat (map escape_char s) @ [CHR 0x22]"

fun str_of_nat :: "nat \<Rightarrow> string" where
  "str_of_nat n =
     (if n < 10 then [char_of (48 + n)]
      else str_of_nat (n div 10) @ [char_of (48 + n mod 10)])"

declare str_of_nat.simps [simp del]

definition str_of_int :: "int \<Rightarrow> string" where
  "str_of_int i = (if i < 0 then ''-'' @ str_of_nat (nat (- i)) else str_of_nat (nat i))"

fun fraction_digits :: "nat \<Rightarrow> real \<Rightarrow> string" where
  "fraction_digits 0 f = []"
| "fraction_digits (Suc n) f =
     (if f = 0 then []
      else char_of (48 + nat \<lfloor>f * 10\<rfloor>)
             # fraction_digits n (f * 10 - of_int \<lfloor>f * 10\<rfloor>))"

definition float_repr :: "real \<Rightarrow> string" where
  "float_repr r =
     (let a = \<bar>r\<bar>; f = a - of_int \<lfloor>a\<rfloor>
      in (if r < 0 then ''-'' else []) @ str_of_nat (nat \<lfloor>a\<rfloor>) @ ''.''
           @ (if f = 0 then ''0'' else fraction_digits 17 f))"

fun py_dumps :: "(real \<Rightarrow> string) \<Rightarrow> json \<Rightarrow> string"
  and py_dumps_items :: "(real \<Rightarrow> string) \<Rightarrow> json list \<Rightarrow> string"
  and py_dumps_members :: "(real \<Rightarrow> string) \<Rightarrow> (string \<times> json) list \<Rightarrow> string" where
  "py_dumps fr JNull = ''null''"
| "py_dumps fr (JBool b) = (if b then ''true'' else ''false'')"
| "py_dumps fr (JInt i) = str_of_int i"
| "py_dumps fr (JFloat r) = fr r"
| "py_dumps fr (JStr s) = quote_str s"
| "py_dumps fr (JList xs) = ''['' @ py_dumps_items fr xs @ '']''"
| "py_dumps fr (JDict kvs) = ''{'' @ py_dumps_members fr kvs @ ''}''"
| "py_dumps_items fr [] = []"
| "py_dumps_items fr [x] = py_dumps fr x"
| "py_dumps_items fr (x # y # ys) = py_dumps fr x @ '', '' @ py_dumps_items fr (y # ys)"
| "py_dumps_members fr [] = []"
| "py_dumps_members fr [(k, v)] = quote_str k @ '': '' @ py_dumps fr v"
| "py_dumps_members fr ((k, v) # kv # kvs) =
     quote_str k @ '': '' @ py_dumps fr v @ '', '' @ py_dumps_members fr (kv # kvs)"

text \<open>
  The configuration of a process started with none of the environment variables set
  (the defaults of config.py), and the same with \<open>USE_AZURE_OPENAI=false\<close>.
\<close>

definition default_llm_config :: LLMEnhancementConfig where
  "default_llm_config =
     \<lparr> azure_openai_endpoint = [],
       azure_openai_key = [],
       azure_openai_version = ''2023-07-01-preview'',
       parser_deployment_id = ''gpt-4'',
       generator_deployment_id = ''gpt-4'',
       validator_deployment_id = ''gpt-4'',
       optimizer_deployment_id = ''gpt-4'',
       use_azure_openai = True,
       default_temperature = 0.1,
       max_tokens = 4000,
       timeout = 60 \<rparr>"

definition mock_llm_config :: LLMEnhancementConfig where
  "mock_llm_config = default_llm_config\<lparr> use_azure_openai := False \<rparr>"

definition azure_llm_config :: LLMEnhancementConfig where
  "azure_llm_config =
     default_llm_config\<lparr> azure_openai_endpoint := ''https://example.openai.azure.com'',
                          azure_openai_key := ''secret'' \<rparr>"

text \<open>
  A backend that answers every request with one choice holding the given text, next to
  a decoder that finds no JSON in what it is given (as \<open>json.loads\<close> does on the
  reply \<open>not json\<close> used below). The client constructor succeeds.
\<close>

definition replying_env :: "string \<Rightarrow> env" where
  "replying_env reply =
     \<lparr> json_dumps = py_dumps float_repr,
       json_loads = (\<lambda>s. Inl (JSONDecodeError ''Expecting value: line 1 column 1 (char 0)'')),
       AzureOpenAI = (\<lambda>endpoint key version.
          Inr \<lparr> azure_endpoint = endpoint, api_key = key, api_version = version \<rparr>),
       chat_completions_create = (\<lambda>cl request. Inr [Some reply]) \<rparr>"

text \<open>
  A backend whose answer to a request is given by a function of the request, next to
  a decoder that knows the serializations of the listed values: it returns the value
  whose \<open>json.dumps\<close> text it is given and finds no JSON in any other text (in the
  scenarios every text it is given is one of these or is not JSON).
  \<open>user_message\<close> reads the content of the user message of a request: a backend
  answering with it repeats the payload it was sent. A backend answering with
  \<open>always reply\<close> sends the same text whatever the request.
\<close>

definition user_message :: "chat_request \<Rightarrow> string" where
  "user_message request = (case messages request of [system, (role, c)] \<Rightarrow> c | _ \<Rightarrow> [])"

definition always :: "string \<Rightarrow> chat_request \<Rightarrow> string" where
  "always reply request = reply"

definition answering_env :: "(chat_request \<Rightarrow> string) \<Rightarrow> json list \<Rightarrow> env" where
  "answering_env answer known =
     \<lparr> json_dumps = py_dumps float_repr,
       json_loads = (\<lambda>s.
          case map_of (map (\<lambda>j. (py_dumps float_repr j, j)) known) s of
            Some j \<Rightarrow> Inr j
          | None \<Rightarrow> Inl (JSONDecodeError ''Expecting value: line 1 column 1 (char 0)'')),
       AzureOpenAI = (\<lambda>endpoint key version.
          Inr \<lparr> azure_endpoint = endpoint, api_key = key, api_version = version \<rparr>),
       chat_completions_create = (\<lambda>cl request. Inr [Some (answer request)]) \<rparr>"

text \<open>No network: the client constructor raises, and so would any request.\<close>

definition offline_env :: env where
  "offline_env =
     \<lparr> json_dumps = py_dumps float_repr,
       json_loads = (\<lambda>s. Inl (JSONDecodeError ''Expecting value: line 1 column 1 (char 0)'')),
       AzureOpenAI = (\<lambda>endpoint key version. Inl (BackendError ''Connection error.'')),
       chat_completions_create = (\<lambda>cl request. Inl (BackendError ''Connection error.'')) \<rparr>"

text \<open>
  The object \<open>LLMComponentBase.__init__\<close> builds under \<open>mock_llm_config\<close> when no
  deployment is passed, and the same under \<open>default_llm_config\<close>, where
  \<open>self.client\<close> stays unassigned.
\<close>

definition mock_base :: "string \<Rightarrow> LLMComponentBase" where
  "mock_base name =
     \<lparr> component_name = name, deployment_id = ''gpt-4'', mock_responses = Map.empty,
       client = PyNone \<rparr>"

definition clientless_base :: "string \<Rightarrow> LLMComponentBase" where
  "clientless_base name =
     \<lparr> component_name = name, deployment_id = ''gpt-4'', mock_responses = Map.empty,
       client = Unassigned \<rparr>"

definition azure_base :: "string \<Rightarrow> LLMComponentBase" where
  "azure_base name =
     \<lparr> component_name = name, deployment_id = ''gpt-4'', mock_responses = Map.empty,
       client = Assigned \<lparr> azure_endpoint = ''https://example.openai.azure.com'',
                          api_key = ''secret'', api_version = ''2023-07-01-preview'' \<rparr> \<rparr>"

text \<open>The VPC resources of a requirements object, each as the list of its subnets.\<close>

definition subnets_of_vpc_resources :: "json \<Rightarrow> json list list" where
  "subnets_of_vpc_resources obj =
     concat (map (\<lambda>r. case dict_get r ''subnets'' of Some s \<Rightarrow> [list_items s] | None \<Rightarrow> [])
               (filter (\<lambda>r. dict_get r ''type'' = Some (JStr ''vpc''))
                  (case dict_get obj ''resources'' of Some rs \<Rightarrow> list_items rs | None \<Rightarrow> [])))"

section \<open>Basic facts about components\<close>

lemma client_register_mock_response [simp]:
  "client (register_mock_response self key response) = client self"
  by (simp add: register_mock_response_def)

lemma component_name_register_mock_response [simp]:
  "component_name (register_mock_response self key response) = component_name self"
  by (simp add: register_mock_response_def)

lemma mock_responses_register_mock_response [simp]:
  "mock_responses (register_mock_response self key response) =
     (mock_responses self)(key \<mapsto> response)"
  by (simp add: register_mock_response_def)

lemma client_register_all [simp]: "client (register_all self regs) = client self"
  by (induction self regs rule: register_all.induct) simp_all

lemma component_name_register_all [simp]:
  "component_name (register_all self regs) = component_name self"
  by (induction self regs rule: register_all.induct) simp_all

lemma register_all_snoc:
  "register_all self (regs @ [(key, response)]) =
     register_mock_response (register_all self regs) key response"
  by (induction self regs rule: register_all.induct) simp_all

text \<open>What the constructor leaves in \<open>self.client\<close>, for the base class and the four subclasses.\<close>

lemma client_LLMComponentBase_init:
  assumes "LLMComponentBase_init e llm_config name dep = Inr self"
  shows "client self =
           (if use_azure_openai llm_config then
              if azure_openai_endpoint llm_config = [] \<or> azure_openai_key llm_config = []
              then Unassigned
              else (case AzureOpenAI e (azure_openai_endpoint llm_config)
                             (azure_openai_key llm_config) (azure_openai_version llm_config) of
                      Inr cl \<Rightarrow> Assigned cl
                    | Inl err \<Rightarrow> PyNone)
            else PyNone)"
  using assms
  by (auto simp: LLMComponentBase_init_def split: sum.splits option.splits if_splits)

lemma construct_cases:
  assumes "construct e llm_config cls dep = Inr self"
  obtains name base regs where "LLMComponentBase_init e llm_config name dep = Inr base"
    and "self = register_all base regs"
proof (cases cls)
  case (Base name)
  with assms have "LLMComponentBase_init e llm_config name dep = Inr self"
    and "self = register_all self []" by simp_all
  then show ?thesis by (rule that)
next
  case NaturalLanguageParser
  with assms obtain s where "LLMComponentBase_init e llm_config ''parser'' dep = Inr s"
    and "self = register_all s [(''parse_requirements'', parse_requirements_mock),
                                (''extract_context'', extract_context_mock)]"
    by (auto simp: NaturalLanguageParser_init_def NaturalLanguageParser_register_default_mocks_def
             split: sum.splits)
  then show ?thesis by (rule that)
next
  case TemplateGenerator
  with assms obtain s where "LLMComponentBase_init e llm_config ''generator'' dep = Inr s"
    and "self = register_all s [(''generate_template'', generate_template_mock),
                                (''analyze_template'', analyze_template_mock),
                                (''generate_documentation'', generate_documentation_mock),
                                (''customize_template'', customize_template_mock)]"
    by (auto simp: TemplateGenerator_init_def TemplateGenerator_register_default_mocks_def
             split: sum.splits)
  then show ?thesis by (rule that)
next
  case IntelligentValidator
  with assms obtain s where "LLMComponentBase_init e llm_config ''validator'' dep = Inr s"
    and "self = register_all s [(''validate_terraform'', validate_terraform_mock),
                                (''suggest_fixes'', suggest_fixes_mock),
                                (''check_best_practices'', check_best_practices_mock),
                                (''check_security'', check_security_mock)]"
    by (auto simp: IntelligentValidator_init_def IntelligentValidator_register_default_mocks_def
             split: sum.splits)
  then show ?thesis by (rule that)
next
  case ResourceOptimizer
  with assms obtain s where "LLMComponentBase_init e llm_config ''optimizer'' dep = Inr s"
    and "self = register_all s [(''optimize_cost'', optimize_cost_mock),
                                (''optimize_performance'', optimize_performance_mock),
                                (''suggest_architecture'', suggest_architecture_mock),
                                (''right_size_resources'', right_size_resources_mock)]"
    by (auto simp: ResourceOptimizer_init_def ResourceOptimizer_register_default_mocks_def
             split: sum.splits)
  then show ?thesis by (rule that)
qed

lemma client_construct:
  assumes "construct e llm_config cls dep = Inr self"
  shows "client self =
           (if use_azure_openai llm_config then
              if azure_openai_endpoint llm_config = [] \<or> azure_openai_key llm_config = []
              then Unassigned
              else (case AzureOpenAI e (azure_openai_endpoint llm_config)
                             (azure_openai_key llm_config) (azure_openai_version llm_config) of
                      Inr cl \<Rightarrow> Assigned cl
                    | Inl err \<Rightarrow> PyNone)
            else PyNone)"
proof -
  from assms obtain name base regs
    where "LLMComponentBase_init e llm_config name dep = Inr base" and "self = register_all base regs"
    by (rule construct_cases)
  then show ?thesis
    using client_LLMComponentBase_init [of e llm_config name dep base] by simp
qed

lemma fallback_path_construct:
  assumes "\<not> use_azure_openai llm_config" and "construct e llm_config cls dep = Inr self"
  shows "fallback_path llm_config (register_all self regs)"
  using client_construct [OF assms(2)] assms(1) by (simp add: fallback_path_def)

text \<open>Neither \<open>_get_mock_response\<close> nor \<open>call_llm\<close> assigns to \<open>self\<close>.\<close>

lemma snd_get_mock_response [simp]:
  "snd (get_mock_response e self key system_prompt user_content json_response) = self"
  by (simp add: get_mock_response_def Let_def split: option.splits)

lemma snd_call_llm [simp]:
  "snd (call_llm e llm_config self system_prompt user_content temp json_response max_toks key) = self"
  by (simp add: call_llm_def Let_def split: client_attr.splits sum.splits)

lemma snd_invoke [simp]: "snd (invoke e llm_config self oc) = self"
  by (cases oc)
     (simp_all add: parse_infrastructure_requirements_def extract_context_def
        generate_terraform_template_def analyze_template_def generate_documentation_def
        customize_template_def validate_terraform_def suggest_fixes_def check_best_practices_def
        check_security_def optimize_cost_def optimize_performance_def suggest_architecture_def
        right_size_resources_def Let_def)

lemma invoke_all_unchanged [simp]: "invoke_all llm_config self calls = self"
  by (induction llm_config self calls rule: invoke_all.induct) simp_all

text \<open>On the path of line 86 the call is \<open>_get_mock_response\<close> on the serialized payload.\<close>

lemma call_llm_fallback:
  assumes "fallback_path llm_config self"
  shows "call_llm e llm_config self system_prompt user_content temp json_response max_toks key =
           get_mock_response e self key system_prompt
             (case user_content of Dict d \<Rightarrow> json_dumps e (JDict d) | Text s \<Rightarrow> s) json_response"
  using assms
  by (auto simp: call_llm_def fallback_path_def Let_def split: client_attr.splits)

lemma call_llm_registered:
  assumes "fallback_path llm_config self" and "key \<noteq> []" and "mock_responses self key = Some v"
  shows "call_llm e llm_config self system_prompt user_content temp json_response max_toks (Some key)
           = (Inr v, self)"
  using assms by (simp add: call_llm_fallback get_mock_response_def)

text \<open>
  A call that expects JSON, with a registered key, on a component whose client is
  assigned: the result is the registered value or the decoded reply to some request.
\<close>

lemma call_llm_json_result_cases:
  assumes "client self \<noteq> Unassigned" and "key \<noteq> []" and "mock_responses self key = Some m"
  shows "fst (call_llm e llm_config self system_prompt user_content temp True max_toks (Some key))
           = Inr m
       \<or> (\<exists>cl request reply rest r.
             client self = Assigned cl \<and> use_azure_openai llm_config
             \<and> chat_completions_create e cl request = Inr (Some reply # rest)
             \<and> json_loads e reply = Inr r
             \<and> fst (call_llm e llm_config self system_prompt user_content temp True max_toks
                       (Some key)) = Inr r)"
proof (cases "fallback_path llm_config self")
  case True
  with assms show ?thesis by (simp add: call_llm_registered)
next
  case False
  with assms(1) obtain cl where cl: "client self = Assigned cl" and use: "use_azure_openai llm_config"
    by (cases "client self") (auto simp: fallback_path_def)
  let ?uc = "case user_content of Dict d \<Rightarrow> json_dumps e (JDict d) | Text s \<Rightarrow> s"
  let ?request = "build_request llm_config self system_prompt ?uc temp True max_toks"
  show ?thesis
  proof (cases "call_llm_try e llm_config self cl system_prompt ?uc temp True max_toks")
    case (Inl err)
    with cl use assms(2,3) have
      "fst (call_llm e llm_config self system_prompt user_content temp True max_toks (Some key))
         = Inr m"
      by (simp add: call_llm_def Let_def get_mock_response_def)
    then show ?thesis by simp
  next
    case (Inr r)
    then obtain reply rest where "chat_completions_create e cl ?request = Inr (Some reply # rest)"
      and "json_loads e reply = Inr r"
      by (auto simp: call_llm_try_def split: sum.splits list.splits option.splits error.splits)
    moreover from Inr cl use have
      "fst (call_llm e llm_config self system_prompt user_content temp True max_toks (Some key))
         = Inr r"
      by (simp add: call_llm_def Let_def)
    ultimately show ?thesis using cl use by blast
  qed
qed

text \<open>The same call when the backend answers every request with one text that decodes.\<close>

lemma call_llm_json_decoded_reply:
  assumes "client self = Assigned cl" and "use_azure_openai llm_config"
    and "\<forall>request. chat_completions_create e cl request = Inr (Some reply # rest)"
    and "json_loads e reply = Inr r"
  shows "call_llm e llm_config self system_prompt user_content temp True max_toks key = (Inr r, self)"
  using assms by (simp add: call_llm_def call_llm_try_def Let_def)

lemma invoke_registered:
  assumes "fallback_path llm_config self" and "mock_responses self (fallback_key oc) = Some v"
  shows "invoke e llm_config self oc = (Inr v, self)"
  using assms
  by (cases oc)
     (simp_all add: call_llm_registered parse_infrastructure_requirements_def extract_context_def
        generate_terraform_template_def analyze_template_def generate_documentation_def
        customize_template_def validate_terraform_def suggest_fixes_def check_best_practices_def
        check_security_def optimize_cost_def optimize_performance_def suggest_architecture_def
        right_size_resources_def Let_def)

text \<open>The constructors on the three configurations of the scenarios.\<close>

lemma construct_mock_llm_config:
  "construct e mock_llm_config (Base ''parser'') None = Inr (mock_base ''parser'')"
  "construct e mock_llm_config (Base ''validator'') None = Inr (mock_base ''validator'')"
  "construct e mock_llm_config NaturalLanguageParser None =
     Inr (NaturalLanguageParser_register_default_mocks (mock_base ''parser''))"
  "construct e mock_llm_config TemplateGenerator None =
     Inr (TemplateGenerator_register_default_mocks (mock_base ''generator''))"
  "construct e mock_llm_config IntelligentValidator None =
     Inr (IntelligentValidator_register_default_mocks (mock_base ''validator''))"
  "construct e mock_llm_config ResourceOptimizer None =
     Inr (ResourceOptimizer_register_default_mocks (mock_base ''optimizer''))"
  by (simp_all add: NaturalLanguageParser_init_def TemplateGenerator_init_def
        IntelligentValidator_init_def ResourceOptimizer_init_def LLMComponentBase_init_def
        getattr_llm_config_def lower_def lower_char_def mock_llm_config_def default_llm_config_def
        mock_base_def)

lemma construct_default_llm_config:
  "construct e default_llm_config NaturalLanguageParser None =
     Inr (NaturalLanguageParser_register_default_mocks (clientless_base ''parser''))"
  by (simp add: NaturalLanguageParser_init_def LLMComponentBase_init_def
        getattr_llm_config_def lower_def lower_char_def default_llm_config_def clientless_base_def)

lemma construct_azure_llm_config:
  "construct (replying_env reply) azure_llm_config NaturalLanguageParser None =
     Inr (NaturalLanguageParser_register_default_mocks (azure_base ''parser''))"
  by (simp add: NaturalLanguageParser_init_def LLMComponentBase_init_def
        getattr_llm_config_def lower_def lower_char_def azure_llm_config_def default_llm_config_def
        azure_base_def replying_env_def)

lemma construct_answering_env:
  "construct (answering_env answer known) azure_llm_config TemplateGenerator None =
     Inr (TemplateGenerator_register_default_mocks (azure_base ''generator''))"
  "construct (answering_env answer known) azure_llm_config IntelligentValidator None =
     Inr (IntelligentValidator_register_default_mocks (azure_base ''validator''))"
  "construct (answering_env answer known) azure_llm_config ResourceOptimizer None =
     Inr (ResourceOptimizer_register_default_mocks (azure_base ''optimizer''))"
  by (simp_all add: TemplateGenerator_init_def IntelligentValidator_init_def
        ResourceOptimizer_init_def LLMComponentBase_init_def getattr_llm_config_def lower_def
        lower_char_def azure_llm_config_def default_llm_config_def azure_base_def answering_env_def)

lemma construct_offline_env:
  "construct offline_env azure_llm_config TemplateGenerator None =
     Inr (TemplateGenerator_register_default_mocks (mock_base ''generator''))"
  "construct offline_env azure_llm_config IntelligentValidator None =
     Inr (IntelligentValidator_register_default_mocks (mock_base ''validator''))"
  by (simp_all add: TemplateGenerator_init_def IntelligentValidator_init_def
        LLMComponentBase_init_def getattr_llm_config_def lower_def lower_char_def
        azure_llm_config_def default_llm_config_def mock_base_def offline_env_def)

lemma use_azure_openai_scenarios [simp]:
  "\<not> use_azure_openai mock_llm_config" "use_azure_openai default_llm_config"
  "use_azure_openai azure_llm_config"
  by (simp_all add: mock_llm_config_def default_llm_config_def azure_llm_config_def)

section \<open>C1: a reply that is not JSON\<close>

text \<open>
  C1 says that a call with \<open>json_response\<close> true whose backend reply is not valid
  JSON raises. In the code the \<open>raise\<close> of line 116 stands inside the \<open>try\<close>
  block whose handler \<open>except Exception\<close> (line 120) answers with the mock response:
  the \<open>try\<close> block ends in the exception, and the call returns what
  \<open>_get_mock_response\<close> returns, which is never an error.
\<close>

theorem call_llm_invalid_json_returns_mock:
  assumes "client self = Assigned cl" and "use_azure_openai llm_config"
    and "chat_completions_create e cl
           (build_request llm_config self system_prompt
              (case user_content of Dict d \<Rightarrow> json_dumps e (JDict d) | Text s \<Rightarrow> s)
              temp True max_toks) = Inr (Some reply # rest)"
    and "json_loads e reply = Inl (JSONDecodeError msg)"
  shows "call_llm_try e llm_config self cl system_prompt
           (case user_content of Dict d \<Rightarrow> json_dumps e (JDict d) | Text s \<Rightarrow> s)
           temp True max_toks = Inl (Exception (''Invalid JSON response from LLM: '' @ msg))
       \<and> call_llm e llm_config self system_prompt user_content temp True max_toks key =
           get_mock_response e self key system_prompt
             (case user_content of Dict d \<Rightarrow> json_dumps e (JDict d) | Text s \<Rightarrow> s) True
       \<and> \<not> isl (fst (call_llm e llm_config self system_prompt user_content temp True max_toks key))"
proof -
  let ?uc = "case user_content of Dict d \<Rightarrow> json_dumps e (JDict d) | Text s \<Rightarrow> s"
  have raised: "call_llm_try e llm_config self cl system_prompt ?uc temp True max_toks
                  = Inl (Exception (''Invalid JSON response from LLM: '' @ msg))"
    using assms(3,4) by (simp add: call_llm_try_def)
  have caught: "call_llm e llm_config self system_prompt user_content temp True max_toks key =
                  get_mock_response e self key system_prompt ?uc True"
    using assms(1,2) raised by (simp add: call_llm_def Let_def)
  have "\<not> isl (fst (get_mock_response e self key system_prompt ?uc True))"
    by (simp add: get_mock_response_def Let_def split: option.splits)
  with raised caught show ?thesis by simp
qed

theorem call_llm_invalid_json_returns_mock_witness:
  "call_llm (replying_env ''not json'') azure_llm_config
     (NaturalLanguageParser_register_default_mocks (azure_base ''parser''))
     ''Return JSON'' (Text ''I need a VPC with two subnets'') None True None
     (Some ''parse_requirements'')
   = (Inr parse_requirements_mock,
      NaturalLanguageParser_register_default_mocks (azure_base ''parser''))"
proof -
  let ?e = "replying_env ''not json''"
  let ?self = "NaturalLanguageParser_register_default_mocks (azure_base ''parser'')"
  let ?cl = "\<lparr> azure_endpoint = ''https://example.openai.azure.com'', api_key = ''secret'',
               api_version = ''2023-07-01-preview'' \<rparr>"
  have h1: "client ?self = Assigned ?cl"
    by (simp add: NaturalLanguageParser_register_default_mocks_def azure_base_def)
  have h2: "use_azure_openai azure_llm_config" by simp
  have h3: "chat_completions_create ?e ?cl
              (build_request azure_llm_config ?self ''Return JSON''
                 (case Text ''I need a VPC with two subnets'' of
                    Dict d \<Rightarrow> json_dumps ?e (JDict d) | Text s \<Rightarrow> s) None True None)
            = Inr (Some ''not json'' # [])"
    by (simp add: replying_env_def)
  have h4: "json_loads ?e ''not json''
            = Inl (JSONDecodeError ''Expecting value: line 1 column 1 (char 0)'')"
    by (simp add: replying_env_def)
  have "get_mock_response ?e ?self (Some ''parse_requirements'') ''Return JSON''
          ''I need a VPC with two subnets'' True = (Inr parse_requirements_mock, ?self)"
    by (simp add: get_mock_response_def NaturalLanguageParser_register_default_mocks_def)
  with call_llm_invalid_json_returns_mock [OF h1 h2 h3 h4, of "Some ''parse_requirements''"]
  show ?thesis by simp
qed

section \<open>C2: credentials missing while the backend is switched on\<close>

text \<open>
  C2 says that a component constructed with \<open>use_azure_openai\<close> true and an empty
  endpoint or key answers every call from the fallback path and never raises. The
  constructor logs that the component will use mock responses, but that branch
  (lines 43 and 44) does not assign \<open>self.client\<close>, as its two sibling branches do;
  line 86 reads the attribute, so every call of \<open>call_llm\<close>, and with it every
  operation, raises \<open>AttributeError\<close>, whatever is registered.
\<close>

theorem call_llm_without_credentials_raises:
  assumes "use_azure_openai llm_config"
    and "azure_openai_endpoint llm_config = [] \<or> azure_openai_key llm_config = []"
    and "construct e0 llm_config cls dep = Inr self"
  shows "call_llm e llm_config (register_all self regs) system_prompt user_content temp
           json_response max_toks key
         = (Inl (AttributeError ''client''), register_all self regs)
       \<and> fst (invoke e llm_config (register_all self regs) oc) = Inl (AttributeError ''client'')"
proof -
  have unassigned: "client (register_all self regs) = Unassigned"
    using client_construct [OF assms(3)] assms(1,2) by auto
  then have raises: "\<And>sp uc t jr mt k.
      call_llm e llm_config (register_all self regs) sp uc t jr mt k
        = (Inl (AttributeError ''client''), register_all self regs)"
    by (simp add: call_llm_def Let_def)
  have "fst (invoke e llm_config (register_all self regs) oc) = Inl (AttributeError ''client'')"
    by (cases oc)
       (simp_all add: raises parse_infrastructure_requirements_def extract_context_def
          generate_terraform_template_def analyze_template_def generate_documentation_def
          customize_template_def validate_terraform_def suggest_fixes_def
          check_best_practices_def check_security_def optimize_cost_def
          optimize_performance_def suggest_architecture_def right_size_resources_def Let_def)
  with raises show ?thesis by simp
qed

theorem call_llm_without_credentials_raises_witness:
  "use_azure_openai default_llm_config
   \<and> azure_openai_endpoint default_llm_config = []
   \<and> construct (replying_env ''{}'') default_llm_config NaturalLanguageParser None
       = Inr (NaturalLanguageParser_register_default_mocks (clientless_base ''parser''))
   \<and> fst (parse_infrastructure_requirements (replying_env ''{}'') default_llm_config
            (NaturalLanguageParser_register_default_mocks (clientless_base ''parser''))
            ''I need a VPC with two subnets'')
       = Inl (AttributeError ''client'')"
proof -
  let ?e = "replying_env ''{}''"
  have h1: "use_azure_openai default_llm_config" by simp
  have h2: "azure_openai_endpoint default_llm_config = [] \<or> azure_openai_key default_llm_config = []"
    by (simp add: default_llm_config_def)
  have h3: "construct ?e default_llm_config NaturalLanguageParser None
              = Inr (NaturalLanguageParser_register_default_mocks (clientless_base ''parser''))"
    by (rule construct_default_llm_config)
  from call_llm_without_credentials_raises [OF h1 h2 h3, of ?e "[]" _ _ _ _ _ _
      "ParseInfrastructureRequirements ''I need a VPC with two subnets''"]
  have "fst (parse_infrastructure_requirements ?e default_llm_config
            (NaturalLanguageParser_register_default_mocks (clientless_base ''parser''))
            ''I need a VPC with two subnets'') = Inl (AttributeError ''client'')"
    by simp
  with h1 h3 show ?thesis by (simp add: default_llm_config_def)
qed

section \<open>C3: the filenames of the input in the result\<close>




section \<open>C4: the registered fallback is the result\<close>

text \<open>
  C4: with the backend switched off, every operation on a constructed component, after
  any registrations at runtime, returns the value registered under the operation's
  key, whenever there is one; and a value registered at runtime under that key is the
  result, whatever was registered there before.
\<close>

theorem fallback_returns_registered_value:
  assumes "\<not> use_azure_openai llm_config" and "construct e0 llm_config cls dep = Inr self"
  shows "(mock_responses (register_all self regs) (fallback_key oc) = Some v \<longrightarrow>
            fst (invoke e llm_config (register_all self regs) oc) = Inr v)
       \<and> fst (invoke e llm_config
                 (register_mock_response (register_all self regs) (fallback_key oc) w) oc) = Inr w"
proof -
  have "fallback_path llm_config (register_all self regs)"
    by (rule fallback_path_construct [OF assms])
  then have first: "mock_responses (register_all self regs) (fallback_key oc) = Some v \<longrightarrow>
      fst (invoke e llm_config (register_all self regs) oc) = Inr v"
    by (simp add: invoke_registered)
  have "fallback_path llm_config (register_all self (regs @ [(fallback_key oc, w)]))"
    by (rule fallback_path_construct [OF assms])
  then have "fallback_path llm_config
               (register_mock_response (register_all self regs) (fallback_key oc) w)"
    by (simp add: register_all_snoc)
  then have "fst (invoke e llm_config
                 (register_mock_response (register_all self regs) (fallback_key oc) w) oc) = Inr w"
    by (simp add: invoke_registered)
  with first show ?thesis by simp
qed

theorem fallback_returns_registered_value_witness:
  "fst (validate_terraform (replying_env ''{}'') mock_llm_config
          (IntelligentValidator_register_default_mocks (mock_base ''validator''))
          [(''main.tf'', ''# vpc'')])
     = Inr validate_terraform_mock
   \<and> fst (validate_terraform (replying_env ''{}'') mock_llm_config
            (register_mock_response
               (IntelligentValidator_register_default_mocks (mock_base ''validator''))
               ''validate_terraform''
               (JDict [(''errors'', JList []), (''warnings'', JList []), (''suggestions'', JList [])]))
            [(''main.tf'', ''# vpc'')])
       = Inr (JDict [(''errors'', JList []), (''warnings'', JList []), (''suggestions'', JList [])])"
proof -
  have h1: "\<not> use_azure_openai mock_llm_config" by simp
  have h2: "construct (replying_env ''{}'') mock_llm_config IntelligentValidator None
              = Inr (IntelligentValidator_register_default_mocks (mock_base ''validator''))"
    by (simp only: construct_mock_llm_config)
  have h3: "mock_responses (IntelligentValidator_register_default_mocks (mock_base ''validator''))
              ''validate_terraform'' = Some validate_terraform_mock"
    by (simp add: IntelligentValidator_register_default_mocks_def)
  from h3 fallback_returns_registered_value [OF h1 h2, of "[]"
      "ValidateTerraform [(''main.tf'', ''# vpc'')]" validate_terraform_mock "replying_env ''{}''"
      "JDict [(''errors'', JList []), (''warnings'', JList []), (''suggestions'', JList [])]"]
  show ?thesis by simp
qed

section \<open>C5: the generic placeholder\<close>

text \<open>
  C5: with the backend switched off and nothing registered under the key of the call,
  \<open>call_llm\<close> returns the placeholder: its preview is the first 50 characters of the
  serialized payload followed by an ellipsis when the payload is longer than 50
  characters and the payload itself otherwise, it carries the length of the
  instruction, and it is the structured object when \<open>json_response\<close> is true and
  its serialization otherwise.
\<close>

theorem placeholder_preview:
  assumes "\<not> use_azure_openai llm_config" and "construct e0 llm_config cls dep = Inr self"
    and "case key of None \<Rightarrow> True | Some k \<Rightarrow> mock_responses (register_all self regs) k = None"
  shows "fst (call_llm e llm_config (register_all self regs) system_prompt user_content temp
                json_response max_toks key) =
           (let payload = (case user_content of Dict d \<Rightarrow> json_dumps e (JDict d) | Text s \<Rightarrow> s);
                placeholder =
                  JDict [(''message'', JStr (''This is a mock response from '' @ component_name self)),
                         (''system_prompt_length'', JInt (int (length system_prompt))),
                         (''user_content_preview'',
                            JStr (if 50 < length payload then take 50 payload @ ''...''
                                  else payload))]
            in Inr (if json_response then placeholder else JStr (json_dumps e placeholder)))"
proof -
  have "fallback_path llm_config (register_all self regs)"
    by (rule fallback_path_construct [OF assms(1,2)])
  then show ?thesis
    using assms(3)
    by (simp add: call_llm_fallback get_mock_response_def generic_mock_def Let_def
             split: option.splits)
qed

theorem placeholder_preview_witness:
  "fst (call_llm (replying_env ''{}'') mock_llm_config
          (NaturalLanguageParser_register_default_mocks (mock_base ''parser''))
          ''Summarise'' (Text ''A VPC with two subnets, one public and one private, in us-west-2'')
          None True None (Some ''summarise''))
     = Inr (JDict [(''message'', JStr ''This is a mock response from parser''),
                   (''system_prompt_length'', JInt 9),
                   (''user_content_preview'',
                      JStr ''A VPC with two subnets, one public and one private...'')])
   \<and> fst (call_llm (replying_env ''{}'') mock_llm_config
            (NaturalLanguageParser_register_default_mocks (mock_base ''parser''))
            ''Summarise'' (Text ''A VPC'') None False None None)
     = Inr (JStr ''{\"message\": \"This is a mock response from parser\", \"system_prompt_length\": 9, \"user_content_preview\": \"A VPC\"}'')"
proof -
  let ?e = "replying_env ''{}''"
  let ?p = "NaturalLanguageParser_register_default_mocks (mock_base ''parser'')"
  have h1: "\<not> use_azure_openai mock_llm_config" by simp
  have h2: "construct ?e mock_llm_config NaturalLanguageParser None = Inr ?p"
    by (simp only: construct_mock_llm_config)
  have h3: "case Some ''summarise'' of None \<Rightarrow> True
            | Some k \<Rightarrow> mock_responses (register_all ?p []) k = None"
    by (simp add: NaturalLanguageParser_register_default_mocks_def mock_base_def)
  have h4: "case None of None \<Rightarrow> True
            | Some k \<Rightarrow> mock_responses (register_all ?p []) k = None"
    by simp
  have n: "component_name ?p = ''parser''"
    by (simp add: NaturalLanguageParser_register_default_mocks_def mock_base_def)
  have d: "json_dumps ?e (JDict [(''message'', JStr ''This is a mock response from parser''),
                                (''system_prompt_length'', JInt 9),
                                (''user_content_preview'', JStr ''A VPC'')])
           = ''{\"message\": \"This is a mock response from parser\", \"system_prompt_length\": 9, \"user_content_preview\": \"A VPC\"}''"
    by (simp add: replying_env_def str_of_int_def str_of_nat.simps quote_str_def escape_char_def
          char_of_eq_iff)
  from placeholder_preview [OF h1 h2 h3, of ?e "''Summarise''"
      "Text ''A VPC with two subnets, one public and one private, in us-west-2''" None True None]
    placeholder_preview [OF h1 h2 h4, of ?e "''Summarise''" "Text ''A VPC''" None False None]
    n d
  show ?thesis by (simp add: Let_def)
qed

section \<open>C6: a dictionary payload is serialized before anything else\<close>

text \<open>
  C6: \<open>call_llm\<close> on a dictionary payload is \<open>call_llm\<close> on its serialization, on
  every path; so on the fallback path, with nothing registered under the key, the
  preview of the placeholder is cut from the serialized string.
\<close>

theorem dict_payload_preview_from_serialization:
  "call_llm e llm_config self system_prompt (Dict d) temp json_response max_toks key =
     call_llm e llm_config self system_prompt (Text (json_dumps e (JDict d))) temp
       json_response max_toks key
   \<and> (fallback_path llm_config self
        \<and> (case key of None \<Rightarrow> True | Some k \<Rightarrow> mock_responses self k = None) \<longrightarrow>
        (case fst (call_llm e llm_config self system_prompt (Dict d) temp True max_toks key) of
           Inr result \<Rightarrow>
             dict_get result ''user_content_preview'' =
               Some (JStr (if 50 < length (json_dumps e (JDict d))
                           then take 50 (json_dumps e (JDict d)) @ ''...''
                           else json_dumps e (JDict d)))
         | Inl err \<Rightarrow> False))"
proof -
  have same: "call_llm e llm_config self system_prompt (Dict d) temp json_response max_toks key =
           call_llm e llm_config self system_prompt (Text (json_dumps e (JDict d))) temp
             json_response max_toks key"
    by (simp add: call_llm_def)
  have "fst (call_llm e llm_config self system_prompt (Dict d) temp True max_toks key)
          = Inr (generic_mock self system_prompt (json_dumps e (JDict d)))"
    if "fallback_path llm_config self"
      and "case key of None \<Rightarrow> True | Some k \<Rightarrow> mock_responses self k = None"
    using that
    by (simp add: call_llm_fallback get_mock_response_def Let_def split: option.splits)
  with same show ?thesis by (simp add: generic_mock_def)
qed

theorem dict_payload_preview_from_serialization_witness:
  "fallback_path mock_llm_config (mock_base ''validator'')
   \<and> fst (call_llm (replying_env ''{}'') mock_llm_config (mock_base ''validator'') ''Validate''
          (Dict [(''template_files'', JDict [(''main.tf'', JStr ''resource \"aws_vpc\" \"main\" {}'')])])
          None True None None)
     = Inr (JDict [(''message'', JStr ''This is a mock response from validator''),
                   (''system_prompt_length'', JInt 8),
                   (''user_content_preview'',
                      JStr (''{\"template_files\": {\"main.tf\": \"resource ''
                            @ [CHR 0x5C] @ ''\"aws_vpc...''))])
   \<and> fst (call_llm (answering_env user_message [JDict [(''main.tf'', JStr ''# vpc'')]])
            azure_llm_config (azure_base ''validator'') ''Validate''
            (Dict [(''main.tf'', JStr ''# vpc'')]) None True None None)
     = Inr (JDict [(''main.tf'', JStr ''# vpc'')])"
proof -
  let ?e = "replying_env ''{}''"
  let ?d = "[(''template_files'', JDict [(''main.tf'', JStr ''resource \"aws_vpc\" \"main\" {}'')])]"
  let ?a = "answering_env user_message [JDict [(''main.tf'', JStr ''# vpc'')]]"
  have h1: "fallback_path mock_llm_config (mock_base ''validator'')"
    by (simp add: fallback_path_def mock_base_def)
  have h2: "case None of None \<Rightarrow> True | Some k \<Rightarrow> mock_responses (mock_base ''validator'') k = None"
    by simp
  have d: "json_dumps ?e (JDict ?d)
           = ''{\"template_files\": {\"main.tf\": \"resource '' @ [CHR 0x5C] @ ''\"aws_vpc''
             @ [CHR 0x5C] @ ''\" '' @ [CHR 0x5C] @ ''\"main'' @ [CHR 0x5C] @ ''\" {}\"}}''"
    by (simp add: replying_env_def quote_str_def escape_char_def)
  note fallback = dict_payload_preview_from_serialization
         [where e = ?e and llm_config = mock_llm_config and self = "mock_base ''validator''"
            and system_prompt = "''Validate''" and d = ?d and temp = None
            and json_response = True and max_toks = None and key = None]
  from fallback h1 h2 have
    "case fst (call_llm ?e mock_llm_config (mock_base ''validator'') ''Validate'' (Dict ?d)
                 None True None None) of
       Inr result \<Rightarrow>
         dict_get result ''user_content_preview'' =
           Some (JStr (if 50 < length (json_dumps ?e (JDict ?d))
                       then take 50 (json_dumps ?e (JDict ?d)) @ ''...''
                       else json_dumps ?e (JDict ?d)))
     | Inl err \<Rightarrow> False"
    by blast
  from fallback
  have "fst (call_llm ?e mock_llm_config (mock_base ''validator'') ''Validate'' (Dict ?d)
               None True None None)
        = fst (call_llm ?e mock_llm_config (mock_base ''validator'') ''Validate''
                 (Text (json_dumps ?e (JDict ?d))) None True None None)"
    by simp
  also have "\<dots> = Inr (generic_mock (mock_base ''validator'') ''Validate'' (json_dumps ?e (JDict ?d)))"
    using h1 by (simp add: call_llm_fallback get_mock_response_def Let_def)
  finally have first:
    "fst (call_llm ?e mock_llm_config (mock_base ''validator'') ''Validate'' (Dict ?d)
            None True None None)
     = Inr (JDict [(''message'', JStr ''This is a mock response from validator''),
                   (''system_prompt_length'', JInt 8),
                   (''user_content_preview'',
                      JStr (''{\"template_files\": {\"main.tf\": \"resource ''
                            @ [CHR 0x5C] @ ''\"aws_vpc...''))])"
    by (simp only: d) (simp add: generic_mock_def mock_base_def)
  have sent: "json_dumps ?a (JDict [(''main.tf'', JStr ''# vpc'')]) = ''{\"main.tf\": \"# vpc\"}''"
    by (simp add: answering_env_def quote_str_def escape_char_def)
  from dict_payload_preview_from_serialization
         [where e = ?a and llm_config = azure_llm_config and self = "azure_base ''validator''"
            and system_prompt = "''Validate''" and d = "[(''main.tf'', JStr ''# vpc'')]"
            and temp = None and json_response = True and max_toks = None and key = None]
  have "fst (call_llm ?a azure_llm_config (azure_base ''validator'') ''Validate''
               (Dict [(''main.tf'', JStr ''# vpc'')]) None True None None)
        = fst (call_llm ?a azure_llm_config (azure_base ''validator'') ''Validate''
                 (Text (json_dumps ?a (JDict [(''main.tf'', JStr ''# vpc'')]))) None True None None)"
    by simp
  also have "\<dots> = Inr (JDict [(''main.tf'', JStr ''# vpc'')])"
    unfolding sent
    by (simp add: call_llm_def call_llm_try_def build_request_def azure_base_def
          answering_env_def user_message_def quote_str_def escape_char_def)
  finally show ?thesis using h1 first by simp
qed

section \<open>C7: the optional parameter of the optimizer operations\<close>

text \<open>
  C7 says that \<open>optimize_cost\<close>, \<open>optimize_performance\<close> and
  \<open>right_size_resources\<close> merge the optional parameter into the payload whenever it
  is supplied. The operations test its truth value, not its presence: a budget of zero
  and an empty dictionary of targets or of utilization data are supplied and left out.
  Against a backend that repeats the payload it is sent, the three operations return
  the object with \<open>template_files\<close> alone.
\<close>

theorem optional_parameter_supplied_counterexample:
  "construct
     (answering_env user_message
        [JDict [(''template_files'', JDict [(''main.tf'', JStr ''# vpc'')])],
         JDict [(''template_files'', JDict [(''main.tf'', JStr ''# vpc'')]),
                (''budget_constraint'', JFloat 0)],
         JDict [(''template_files'', JDict [(''main.tf'', JStr ''# vpc'')]),
                (''performance_targets'', JDict [])],
         JDict [(''template_files'', JDict [(''main.tf'', JStr ''# vpc'')]),
                (''utilization_data'', JDict [])]])
     azure_llm_config ResourceOptimizer None
     = Inr (ResourceOptimizer_register_default_mocks (azure_base ''optimizer''))
   \<and> fst (optimize_cost
            (answering_env user_message
               [JDict [(''template_files'', JDict [(''main.tf'', JStr ''# vpc'')])],
                JDict [(''template_files'', JDict [(''main.tf'', JStr ''# vpc'')]),
                       (''budget_constraint'', JFloat 0)],
                JDict [(''template_files'', JDict [(''main.tf'', JStr ''# vpc'')]),
                       (''performance_targets'', JDict [])],
                JDict [(''template_files'', JDict [(''main.tf'', JStr ''# vpc'')]),
                       (''utilization_data'', JDict [])]])
            azure_llm_config (ResourceOptimizer_register_default_mocks (azure_base ''optimizer''))
            [(''main.tf'', ''# vpc'')] (Some 0))
       = Inr (JDict [(''template_files'', JDict [(''main.tf'', JStr ''# vpc'')])])
   \<and> fst (optimize_performance
            (answering_env user_message
               [JDict [(''template_files'', JDict [(''main.tf'', JStr ''# vpc'')])],
                JDict [(''template_files'', JDict [(''main.tf'', JStr ''# vpc'')]),
                       (''budget_constraint'', JFloat 0)],
                JDict [(''template_files'', JDict [(''main.tf'', JStr ''# vpc'')]),
                       (''performance_targets'', JDict [])],
                JDict [(''template_files'', JDict [(''main.tf'', JStr ''# vpc'')]),
                       (''utilization_data'', JDict [])]])
            azure_llm_config (ResourceOptimizer_register_default_mocks (azure_base ''optimizer''))
            [(''main.tf'', ''# vpc'')] (Some []))
       = Inr (JDict [(''template_files'', JDict [(''main.tf'', JStr ''# vpc'')])])
   \<and> fst (right_size_resources
            (answering_env user_message
               [JDict [(''template_files'', JDict [(''main.tf'', JStr ''# vpc'')])],
                JDict [(''template_files'', JDict [(''main.tf'', JStr ''# vpc'')]),
                       (''budget_constraint'', JFloat 0)],
                JDict [(''template_files'', JDict [(''main.tf'', JStr ''# vpc'')]),
                       (''performance_targets'', JDict [])],
                JDict [(''template_files'', JDict [(''main.tf'', JStr ''# vpc'')]),
                       (''utilization_data'', JDict [])]])
            azure_llm_config (ResourceOptimizer_register_default_mocks (azure_base ''optimizer''))
            [(''main.tf'', ''# vpc'')] (Some []))
       = Inr (JDict [(''template_files'', JDict [(''main.tf'', JStr ''# vpc'')])])
   \<and> optimize_cost_user_content (replying_env ''{}'') [(''main.tf'', ''# vpc'')] (Some 0)
     = ''{\"template_files\": {\"main.tf\": \"# vpc\"}}''
   \<and> optimize_performance_user_content (replying_env ''{}'') [(''main.tf'', ''# vpc'')] (Some [])
     = ''{\"template_files\": {\"main.tf\": \"# vpc\"}}''
   \<and> right_size_resources_user_content (replying_env ''{}'') [(''main.tf'', ''# vpc'')] (Some [])
     = ''{\"template_files\": {\"main.tf\": \"# vpc\"}}''"
proof -
  let ?known = "[JDict [(''template_files'', JDict [(''main.tf'', JStr ''# vpc'')])],
         JDict [(''template_files'', JDict [(''main.tf'', JStr ''# vpc'')]),
                (''budget_constraint'', JFloat 0)],
         JDict [(''template_files'', JDict [(''main.tf'', JStr ''# vpc'')]),
                (''performance_targets'', JDict [])],
         JDict [(''template_files'', JDict [(''main.tf'', JStr ''# vpc'')]),
                (''utilization_data'', JDict [])]]"
  let ?a = "answering_env user_message ?known"
  let ?o = "ResourceOptimizer_register_default_mocks (azure_base ''optimizer'')"
  have built: "construct ?a azure_llm_config ResourceOptimizer None = Inr ?o"
    by (simp only: construct_answering_env)
  have cl: "client ?o = Assigned \<lparr> azure_endpoint = ''https://example.openai.azure.com'',
                                   api_key = ''secret'', api_version = ''2023-07-01-preview'' \<rparr>"
    by (simp add: ResourceOptimizer_register_default_mocks_def azure_base_def)
  have echo: "\<And>sp t mt k.
      fst (call_llm ?a azure_llm_config ?o sp (Text ''{\"template_files\": {\"main.tf\": \"# vpc\"}}'')
             t True mt k)
        = Inr (JDict [(''template_files'', JDict [(''main.tf'', JStr ''# vpc'')])])"
    by (simp add: call_llm_def call_llm_try_def build_request_def cl answering_env_def
          user_message_def quote_str_def escape_char_def)
  have sent: "optimize_cost_user_content ?a [(''main.tf'', ''# vpc'')] (Some 0)
                = ''{\"template_files\": {\"main.tf\": \"# vpc\"}}''"
    "optimize_performance_user_content ?a [(''main.tf'', ''# vpc'')] (Some [])
                = ''{\"template_files\": {\"main.tf\": \"# vpc\"}}''"
    "right_size_resources_user_content ?a [(''main.tf'', ''# vpc'')] (Some [])
                = ''{\"template_files\": {\"main.tf\": \"# vpc\"}}''"
    by (simp_all add: optimize_cost_user_content_def optimize_performance_user_content_def
          right_size_resources_user_content_def str_dict_def answering_env_def quote_str_def
          escape_char_def)
  have ops: "fst (optimize_cost ?a azure_llm_config ?o [(''main.tf'', ''# vpc'')] (Some 0))
               = Inr (JDict [(''template_files'', JDict [(''main.tf'', JStr ''# vpc'')])])"
    "fst (optimize_performance ?a azure_llm_config ?o [(''main.tf'', ''# vpc'')] (Some []))
               = Inr (JDict [(''template_files'', JDict [(''main.tf'', JStr ''# vpc'')])])"
    "fst (right_size_resources ?a azure_llm_config ?o [(''main.tf'', ''# vpc'')] (Some []))
               = Inr (JDict [(''template_files'', JDict [(''main.tf'', JStr ''# vpc'')])])"
    unfolding optimize_cost_def optimize_performance_def right_size_resources_def Let_def sent
    by (rule echo)+
  have texts: "optimize_cost_user_content (replying_env ''{}'') [(''main.tf'', ''# vpc'')] (Some 0)
     = ''{\"template_files\": {\"main.tf\": \"# vpc\"}}''"
    "optimize_performance_user_content (replying_env ''{}'') [(''main.tf'', ''# vpc'')] (Some [])
     = ''{\"template_files\": {\"main.tf\": \"# vpc\"}}''"
    "right_size_resources_user_content (replying_env ''{}'') [(''main.tf'', ''# vpc'')] (Some [])
     = ''{\"template_files\": {\"main.tf\": \"# vpc\"}}''"
    by (simp_all add: optimize_cost_user_content_def optimize_performance_user_content_def
        right_size_resources_user_content_def str_dict_def replying_env_def quote_str_def
        escape_char_def)
  from built ops texts show ?thesis by (intro conjI)
qed

text \<open>
  C7 as amended: each of the three operations calls \<open>call_llm\<close> with the serialization
  of a payload object that holds the parameter next to \<open>template_files\<close> when the
  parameter is supplied and true in Python's sense (a budget other than zero, a
  dictionary that is not empty), and that holds the key \<open>template_files\<close> alone when
  the parameter is \<open>None\<close>, zero or empty.
\<close>

theorem optional_parameter_merged_when_true:
  "(b \<noteq> 0 \<longrightarrow>
      (\<exists>sp. optimize_cost e llm_config self template_files (Some b) =
         call_llm e llm_config self sp
           (Text (json_dumps e (JDict [(''template_files'', JDict (str_dict template_files)),
                                       (''budget_constraint'', JFloat b)])))
           (Some 0.2) True (Some 4000) (Some ''optimize_cost'')))
   \<and> (d \<noteq> [] \<longrightarrow>
      (\<exists>sp. optimize_performance e llm_config self template_files (Some d) =
         call_llm e llm_config self sp
           (Text (json_dumps e (JDict [(''template_files'', JDict (str_dict template_files)),
                                       (''performance_targets'', JDict d)])))
           (Some 0.2) True (Some 4000) (Some ''optimize_performance'')))
   \<and> (d \<noteq> [] \<longrightarrow>
      (\<exists>sp. right_size_resources e llm_config self template_files (Some d) =
         call_llm e llm_config self sp
           (Text (json_dumps e (JDict [(''template_files'', JDict (str_dict template_files)),
                                       (''utilization_data'', JDict d)])))
           (Some 0.2) True (Some 4000) (Some ''right_size_resources'')))
   \<and> (bc = None \<or> bc = Some 0 \<longrightarrow>
      (\<exists>sp. optimize_cost e llm_config self template_files bc =
         call_llm e llm_config self sp
           (Text (json_dumps e (JDict [(''template_files'', JDict (str_dict template_files))])))
           (Some 0.2) True (Some 4000) (Some ''optimize_cost'')))
   \<and> (p = None \<or> p = Some [] \<longrightarrow>
      (\<exists>sp. optimize_performance e llm_config self template_files p =
         call_llm e llm_config self sp
           (Text (json_dumps e (JDict [(''template_files'', JDict (str_dict template_files))])))
           (Some 0.2) True (Some 4000) (Some ''optimize_performance''))
      \<and> (\<exists>sp. right_size_resources e llm_config self template_files p =
         call_llm e llm_config self sp
           (Text (json_dumps e (JDict [(''template_files'', JDict (str_dict template_files))])))
           (Some 0.2) True (Some 4000) (Some ''right_size_resources'')))"
proof -
  have cost_true: "optimize_cost_user_content e template_files (Some b) =
      json_dumps e (JDict [(''template_files'', JDict (str_dict template_files)),
                           (''budget_constraint'', JFloat b)])" if "b \<noteq> 0"
    using that by (simp add: optimize_cost_user_content_def)
  have perf_true: "optimize_performance_user_content e template_files (Some d) =
      json_dumps e (JDict [(''template_files'', JDict (str_dict template_files)),
                           (''performance_targets'', JDict d)])" if "d \<noteq> []"
    using that by (simp add: optimize_performance_user_content_def)
  have size_true: "right_size_resources_user_content e template_files (Some d) =
      json_dumps e (JDict [(''template_files'', JDict (str_dict template_files)),
                           (''utilization_data'', JDict d)])" if "d \<noteq> []"
    using that by (simp add: right_size_resources_user_content_def)
  have cost_false: "optimize_cost_user_content e template_files bc =
      json_dumps e (JDict [(''template_files'', JDict (str_dict template_files))])"
    if "bc = None \<or> bc = Some 0"
    using that by (auto simp: optimize_cost_user_content_def)
  have perf_false: "optimize_performance_user_content e template_files p =
      json_dumps e (JDict [(''template_files'', JDict (str_dict template_files))])"
    and size_false: "right_size_resources_user_content e template_files p =
      json_dumps e (JDict [(''template_files'', JDict (str_dict template_files))])"
    if "p = None \<or> p = Some []"
    using that
    by (auto simp: optimize_performance_user_content_def right_size_resources_user_content_def)
  have c1: "\<exists>sp. optimize_cost e llm_config self template_files (Some b) =
         call_llm e llm_config self sp
           (Text (json_dumps e (JDict [(''template_files'', JDict (str_dict template_files)),
                                       (''budget_constraint'', JFloat b)])))
           (Some 0.2) True (Some 4000) (Some ''optimize_cost'')" if "b \<noteq> 0"
    unfolding optimize_cost_def Let_def cost_true [OF that] by (rule exI) (rule refl)
  have c2: "\<exists>sp. optimize_performance e llm_config self template_files (Some d) =
         call_llm e llm_config self sp
           (Text (json_dumps e (JDict [(''template_files'', JDict (str_dict template_files)),
                                       (''performance_targets'', JDict d)])))
           (Some 0.2) True (Some 4000) (Some ''optimize_performance'')" if "d \<noteq> []"
    unfolding optimize_performance_def Let_def perf_true [OF that] by (rule exI) (rule refl)
  have c3: "\<exists>sp. right_size_resources e llm_config self template_files (Some d) =
         call_llm e llm_config self sp
           (Text (json_dumps e (JDict [(''template_files'', JDict (str_dict template_files)),
                                       (''utilization_data'', JDict d)])))
           (Some 0.2) True (Some 4000) (Some ''right_size_resources'')" if "d \<noteq> []"
    unfolding right_size_resources_def Let_def size_true [OF that] by (rule exI) (rule refl)
  have c4: "\<exists>sp. optimize_cost e llm_config self template_files bc =
         call_llm e llm_config self sp
           (Text (json_dumps e (JDict [(''template_files'', JDict (str_dict template_files))])))
           (Some 0.2) True (Some 4000) (Some ''optimize_cost'')" if "bc = None \<or> bc = Some 0"
    unfolding optimize_cost_def Let_def cost_false [OF that] by (rule exI) (rule refl)
  have c5: "\<exists>sp. optimize_performance e llm_config self template_files p =
         call_llm e llm_config self sp
           (Text (json_dumps e (JDict [(''template_files'', JDict (str_dict template_files))])))
           (Some 0.2) True (Some 4000) (Some ''optimize_performance'')"
    if "p = None \<or> p = Some []"
    unfolding optimize_performance_def Let_def perf_false [OF that] by (rule exI) (rule refl)
  have c6: "\<exists>sp. right_size_resources e llm_config self template_files p =
         call_llm e llm_config self sp
           (Text (json_dumps e (JDict [(''template_files'', JDict (str_dict template_files))])))
           (Some 0.2) True (Some 4000) (Some ''right_size_resources'')"
    if "p = None \<or> p = Some []"
    unfolding right_size_resources_def Let_def size_false [OF that] by (rule exI) (rule refl)
  from c1 c2 c3 c4 c5 c6 show ?thesis by blast
qed

theorem optional_parameter_merged_when_true_witness:
  "fst (optimize_cost
          (answering_env user_message
             [JDict [(''template_files'', JDict [(''main.tf'', JStr ''# vpc'')])],
              JDict [(''template_files'', JDict [(''main.tf'', JStr ''# vpc'')]),
                     (''budget_constraint'', JFloat 500)]])
          azure_llm_config (ResourceOptimizer_register_default_mocks (azure_base ''optimizer''))
          [(''main.tf'', ''# vpc'')] (Some 500))
     = Inr (JDict [(''template_files'', JDict [(''main.tf'', JStr ''# vpc'')]),
                   (''budget_constraint'', JFloat 500)])
   \<and> fst (right_size_resources
          (answering_env user_message
             [JDict [(''template_files'', JDict [(''main.tf'', JStr ''# vpc'')])],
              JDict [(''template_files'', JDict [(''main.tf'', JStr ''# vpc'')]),
                     (''budget_constraint'', JFloat 500)]])
          azure_llm_config (ResourceOptimizer_register_default_mocks (azure_base ''optimizer''))
          [(''main.tf'', ''# vpc'')] None)
     = Inr (JDict [(''template_files'', JDict [(''main.tf'', JStr ''# vpc'')])])
   \<and> json_dumps (replying_env ''{}'')
         (JDict [(''template_files'', JDict [(''main.tf'', JStr ''# vpc'')]),
                 (''budget_constraint'', JFloat 500)])
     = ''{\"template_files\": {\"main.tf\": \"# vpc\"}, \"budget_constraint\": 500.0}''"
proof -
  let ?known = "[JDict [(''template_files'', JDict [(''main.tf'', JStr ''# vpc'')])],
              JDict [(''template_files'', JDict [(''main.tf'', JStr ''# vpc'')]),
                     (''budget_constraint'', JFloat 500)]]"
  let ?a = "answering_env user_message ?known"
  let ?o = "ResourceOptimizer_register_default_mocks (azure_base ''optimizer'')"
  let ?tf = "[(''main.tf'', ''# vpc'')]"
  have cl: "client ?o = Assigned \<lparr> azure_endpoint = ''https://example.openai.azure.com'',
                                   api_key = ''secret'', api_version = ''2023-07-01-preview'' \<rparr>"
    by (simp add: ResourceOptimizer_register_default_mocks_def azure_base_def)
  have echo_budget: "\<And>sp t mt k.
      fst (call_llm ?a azure_llm_config ?o sp
             (Text (json_dumps ?a (JDict [(''template_files'', JDict (str_dict ?tf)),
                                          (''budget_constraint'', JFloat 500)])))
             t True mt k)
        = Inr (JDict [(''template_files'', JDict [(''main.tf'', JStr ''# vpc'')]),
                      (''budget_constraint'', JFloat 500)])"
    by (simp add: call_llm_def call_llm_try_def build_request_def cl answering_env_def
          user_message_def str_dict_def quote_str_def escape_char_def float_repr_def Let_def
          str_of_int_def str_of_nat.simps char_of_eq_iff)
  have echo_files: "\<And>sp t mt k.
      fst (call_llm ?a azure_llm_config ?o sp
             (Text (json_dumps ?a (JDict [(''template_files'', JDict (str_dict ?tf))])))
             t True mt k)
        = Inr (JDict [(''template_files'', JDict [(''main.tf'', JStr ''# vpc'')])])"
    by (simp add: call_llm_def call_llm_try_def build_request_def cl answering_env_def
          user_message_def str_dict_def quote_str_def escape_char_def float_repr_def Let_def
          str_of_int_def str_of_nat.simps char_of_eq_iff)
  have b: "(500::real) \<noteq> 0" by simp
  have n: "(None :: pydict option) = None \<or> None = Some []" by simp
  note inst = optional_parameter_merged_when_true
         [where b = 500 and e = ?a and llm_config = azure_llm_config and self = ?o
            and template_files = ?tf and p = None]
  from inst b obtain sp where
    "optimize_cost ?a azure_llm_config ?o ?tf (Some 500) =
       call_llm ?a azure_llm_config ?o sp
         (Text (json_dumps ?a (JDict [(''template_files'', JDict (str_dict ?tf)),
                                      (''budget_constraint'', JFloat 500)])))
         (Some 0.2) True (Some 4000) (Some ''optimize_cost'')"
    by blast
  then have first: "fst (optimize_cost ?a azure_llm_config ?o ?tf (Some 500))
     = Inr (JDict [(''template_files'', JDict [(''main.tf'', JStr ''# vpc'')]),
                   (''budget_constraint'', JFloat 500)])"
    by (simp only: echo_budget)
  from inst n obtain sp' where
    "right_size_resources ?a azure_llm_config ?o ?tf None =
       call_llm ?a azure_llm_config ?o sp'
         (Text (json_dumps ?a (JDict [(''template_files'', JDict (str_dict ?tf))])))
         (Some 0.2) True (Some 4000) (Some ''right_size_resources'')"
    by blast
  then have second: "fst (right_size_resources ?a azure_llm_config ?o ?tf None)
     = Inr (JDict [(''template_files'', JDict [(''main.tf'', JStr ''# vpc'')])])"
    by (simp only: echo_files)
  have printed: "json_dumps (replying_env ''{}'')
         (JDict [(''template_files'', JDict [(''main.tf'', JStr ''# vpc'')]),
                 (''budget_constraint'', JFloat 500)])
     = ''{\"template_files\": {\"main.tf\": \"# vpc\"}, \"budget_constraint\": 500.0}''"
    by (simp add: replying_env_def quote_str_def escape_char_def float_repr_def Let_def
          str_of_int_def str_of_nat.simps char_of_eq_iff)
  from first second printed show ?thesis by (intro conjI)
qed

section \<open>C8: the sample requirements\<close>

text \<open>
  C8: with the backend switched off, \<open>parse_infrastructure_requirements\<close> on the text
  \<open>I need a VPC with two subnets\<close> returns the built-in sample object, whose provider
  is \<open>aws\<close> and whose one VPC resource has two subnets.
\<close>

theorem parse_requirements_sample:
  assumes "\<not> use_azure_openai llm_config"
    and "construct e0 llm_config NaturalLanguageParser dep = Inr parser"
  shows "fst (parse_infrastructure_requirements e llm_config parser ''I need a VPC with two subnets'')
           = Inr parse_requirements_mock
       \<and> dict_get parse_requirements_mock ''provider'' = Some (JStr ''aws'')
       \<and> map length (subnets_of_vpc_resources parse_requirements_mock) = [2]"
proof -
  have p: "fallback_path llm_config parser"
    using fallback_path_construct [OF assms, of "[]"] by simp
  from assms(2) have "mock_responses parser ''parse_requirements'' = Some parse_requirements_mock"
    by (auto simp: NaturalLanguageParser_init_def NaturalLanguageParser_register_default_mocks_def
             split: sum.splits)
  with p have r: "fst (parse_infrastructure_requirements e llm_config parser
                         ''I need a VPC with two subnets'') = Inr parse_requirements_mock"
    by (simp add: parse_infrastructure_requirements_def Let_def call_llm_registered)
  have a: "dict_get parse_requirements_mock ''provider'' = Some (JStr ''aws'')"
    by (simp add: parse_requirements_mock_def)
  have s: "map length (subnets_of_vpc_resources parse_requirements_mock) = [2]"
    by (simp add: parse_requirements_mock_def subnets_of_vpc_resources_def)
  from r a s show ?thesis by simp
qed

theorem parse_requirements_sample_witness:
  "fst (parse_infrastructure_requirements (replying_env ''{}'') mock_llm_config
          (NaturalLanguageParser_register_default_mocks (mock_base ''parser''))
          ''I need a VPC with two subnets'')
     = Inr parse_requirements_mock
   \<and> subnets_of_vpc_resources parse_requirements_mock =
       [[JDict [(''name'', JStr ''public-1''), (''cidr'', JStr ''10.0.1.0/24''),
                (''az'', JStr ''us-west-2a'')],
         JDict [(''name'', JStr ''private-1''), (''cidr'', JStr ''10.0.2.0/24''),
                (''az'', JStr ''us-west-2a'')]]]"
proof -
  have h1: "\<not> use_azure_openai mock_llm_config" by simp
  have h2: "construct (replying_env ''{}'') mock_llm_config NaturalLanguageParser None
              = Inr (NaturalLanguageParser_register_default_mocks (mock_base ''parser''))"
    by (simp only: construct_mock_llm_config)
  have "subnets_of_vpc_resources parse_requirements_mock =
       [[JDict [(''name'', JStr ''public-1''), (''cidr'', JStr ''10.0.1.0/24''),
                (''az'', JStr ''us-west-2a'')],
         JDict [(''name'', JStr ''private-1''), (''cidr'', JStr ''10.0.2.0/24''),
                (''az'', JStr ''us-west-2a'')]]]"
    by (simp add: parse_requirements_mock_def subnets_of_vpc_resources_def)
  with parse_requirements_sample [OF h1 h2, of "replying_env ''{}''"]
  show ?thesis by simp
qed

section \<open>C9: who changes the registry\<close>

text \<open>
  C9: \<open>register_mock_response\<close> changes the registry at the given key and nowhere
  else; \<open>call_llm\<close> returns the component it received, on every path; so after any
  sequence of operation calls the registry is the one before them.
\<close>

theorem registry_changes_only_by_registration:
  "mock_responses (register_mock_response self key response) key = Some response
   \<and> (other \<noteq> key \<longrightarrow>
        mock_responses (register_mock_response self key response) other = mock_responses self other)
   \<and> snd (call_llm e llm_config self system_prompt user_content temp json_response max_toks k) = self
   \<and> mock_responses (invoke_all llm_config self calls) = mock_responses self"
proof -
  have at_key: "mock_responses (register_mock_response self key response) key = Some response"
    by (simp add: register_mock_response_def)
  have elsewhere: "other \<noteq> key \<longrightarrow>
      mock_responses (register_mock_response self key response) other = mock_responses self other"
    by (simp add: register_mock_response_def)
  have one_call:
    "snd (call_llm e llm_config self system_prompt user_content temp json_response max_toks k) = self"
    by (simp add: call_llm_def Let_def get_mock_response_def
             split: client_attr.splits sum.splits option.splits)
  have "invoke_all llm_config self calls = self"
  proof (induction calls)
    case Nil
    show ?case by simp
  next
    case (Cons c calls)
    then show ?case by (cases c) simp
  qed
  with at_key elsewhere one_call show ?thesis by simp
qed

theorem registry_changes_only_by_registration_witness:
  "mock_responses
     (register_mock_response (NaturalLanguageParser_register_default_mocks (mock_base ''parser''))
        ''parse_requirements'' (JDict [(''provider'', JStr ''gcp'')]))
     ''extract_context'' = Some extract_context_mock
   \<and> mock_responses
       (invoke_all mock_llm_config (NaturalLanguageParser_register_default_mocks (mock_base ''parser''))
          [(replying_env ''{}'', ParseInfrastructureRequirements ''I need a VPC with two subnets''),
           (replying_env ''not json'', ExtractContext ''in production'' None)])
       ''parse_requirements'' = Some parse_requirements_mock"
proof -
  let ?p = "NaturalLanguageParser_register_default_mocks (mock_base ''parser'')"
  have ne: "''extract_context'' \<noteq> ''parse_requirements''" by simp
  have r: "mock_responses ?p ''extract_context'' = Some extract_context_mock"
    "mock_responses ?p ''parse_requirements'' = Some parse_requirements_mock"
    by (simp_all add: NaturalLanguageParser_register_default_mocks_def)
  from registry_changes_only_by_registration
         [of ?p "''parse_requirements''" "JDict [(''provider'', JStr ''gcp'')]" "''extract_context''"
             "replying_env ''{}''" mock_llm_config "''''" "Text ''''" None True None None
             "[(replying_env ''{}'', ParseInfrastructureRequirements ''I need a VPC with two subnets''),
               (replying_env ''not json'', ExtractContext ''in production'' None)]"]
       ne
  have "mock_responses (register_mock_response ?p ''parse_requirements''
                          (JDict [(''provider'', JStr ''gcp'')])) ''extract_context''
          = mock_responses ?p ''extract_context''"
    and "mock_responses (invoke_all mock_llm_config ?p
          [(replying_env ''{}'', ParseInfrastructureRequirements ''I need a VPC with two subnets''),
           (replying_env ''not json'', ExtractContext ''in production'' None)])
          = mock_responses ?p"
    by blast+
  with r show ?thesis by simp
qed

section \<open>C10: the fallback path is a function of its inputs\<close>

text \<open>
  C10 says that on the fallback path two calls with the same instruction, payload,
  format flag and key, on components with the same registry, return the same result.
  The placeholder carries the name of the component: two components with empty
  registries and different names answer differently.
\<close>

theorem fallback_same_registry_counterexample:
  "LLMComponentBase_init (replying_env ''{}'') mock_llm_config ''parser'' None
     = Inr (mock_base ''parser'')
   \<and> LLMComponentBase_init (replying_env ''{}'') mock_llm_config ''validator'' None
     = Inr (mock_base ''validator'')
   \<and> mock_responses (mock_base ''parser'') = mock_responses (mock_base ''validator'')
   \<and> fst (call_llm (replying_env ''{}'') mock_llm_config (mock_base ''parser'')
            ''Summarise'' (Text ''A VPC'') None True None (Some ''summarise''))
     = Inr (JDict [(''message'', JStr ''This is a mock response from parser''),
                   (''system_prompt_length'', JInt 9),
                   (''user_content_preview'', JStr ''A VPC'')])
   \<and> fst (call_llm (replying_env ''{}'') mock_llm_config (mock_base ''validator'')
            ''Summarise'' (Text ''A VPC'') None True None (Some ''summarise''))
     = Inr (JDict [(''message'', JStr ''This is a mock response from validator''),
                   (''system_prompt_length'', JInt 9),
                   (''user_content_preview'', JStr ''A VPC'')])
   \<and> fst (call_llm (replying_env ''{}'') mock_llm_config (mock_base ''parser'')
            ''Summarise'' (Text ''A VPC'') None True None (Some ''summarise''))
     \<noteq> fst (call_llm (replying_env ''{}'') mock_llm_config (mock_base ''validator'')
            ''Summarise'' (Text ''A VPC'') None True None (Some ''summarise''))"
proof -
  have i: "LLMComponentBase_init (replying_env ''{}'') mock_llm_config ''parser'' None
             = Inr (mock_base ''parser'')"
          "LLMComponentBase_init (replying_env ''{}'') mock_llm_config ''validator'' None
             = Inr (mock_base ''validator'')"
    using construct_mock_llm_config(1,2) [of "replying_env ''{}''"] by simp_all
  have f: "fallback_path mock_llm_config (mock_base ''parser'')"
          "fallback_path mock_llm_config (mock_base ''validator'')"
    by (simp_all add: fallback_path_def mock_base_def)
  have p: "fst (call_llm (replying_env ''{}'') mock_llm_config (mock_base ''parser'')
            ''Summarise'' (Text ''A VPC'') None True None (Some ''summarise''))
     = Inr (JDict [(''message'', JStr ''This is a mock response from parser''),
                   (''system_prompt_length'', JInt 9),
                   (''user_content_preview'', JStr ''A VPC'')])"
    using f(1) by (simp add: call_llm_fallback get_mock_response_def generic_mock_def mock_base_def)
  have v: "fst (call_llm (replying_env ''{}'') mock_llm_config (mock_base ''validator'')
            ''Summarise'' (Text ''A VPC'') None True None (Some ''summarise''))
     = Inr (JDict [(''message'', JStr ''This is a mock response from validator''),
                   (''system_prompt_length'', JInt 9),
                   (''user_content_preview'', JStr ''A VPC'')])"
    using f(2) by (simp add: call_llm_fallback get_mock_response_def generic_mock_def mock_base_def)
  have m: "mock_responses (mock_base ''parser'') = mock_responses (mock_base ''validator'')"
    by (simp add: mock_base_def)
  show ?thesis
    unfolding p v using i m by simp
qed

text \<open>
  C10 as amended: on the fallback path two calls with the same instruction, payload,
  format flag and key, on components with the same registry and the same component
  name, return the same result, whatever their configuration, client, deployment,
  temperature and token limit are, and whatever the backend would have answered.
\<close>

theorem fallback_deterministic:
  assumes "fallback_path llm_config self" and "fallback_path llm_config' self'"
    and "mock_responses self = mock_responses self'"
    and "component_name self = component_name self'"
    and "json_dumps e = json_dumps e'"
  shows "fst (call_llm e llm_config self system_prompt user_content temp json_response max_toks key)
       = fst (call_llm e' llm_config' self' system_prompt user_content temp' json_response
                max_toks' key)"
  using assms
  by (simp add: call_llm_fallback get_mock_response_def generic_mock_def Let_def
           split: option.splits content.splits)

theorem fallback_deterministic_witness:
  "fst (call_llm (replying_env ''{}'') mock_llm_config
          (NaturalLanguageParser_register_default_mocks (mock_base ''parser''))
          ''Summarise'' (Text ''A VPC'') None True None (Some ''parse_requirements''))
   = fst (call_llm (replying_env ''not json'') azure_llm_config
          (register_mock_response
             ((NaturalLanguageParser_register_default_mocks (mock_base ''parser''))
                \<lparr> deployment_id := ''gpt-35-turbo'' \<rparr>)
             ''extract_context'' extract_context_mock)
          ''Summarise'' (Text ''A VPC'') (Some 0.7) True (Some 100) (Some ''parse_requirements''))"
proof -
  let ?p = "NaturalLanguageParser_register_default_mocks (mock_base ''parser'')"
  let ?q = "register_mock_response (?p \<lparr> deployment_id := ''gpt-35-turbo'' \<rparr>)
              ''extract_context'' extract_context_mock"
  have h1: "fallback_path mock_llm_config ?p" and h2: "fallback_path azure_llm_config ?q"
    by (simp_all add: fallback_path_def NaturalLanguageParser_register_default_mocks_def
          mock_base_def)
  have h3: "mock_responses ?p = mock_responses ?q"
    by (simp add: NaturalLanguageParser_register_default_mocks_def register_mock_response_def
          mock_base_def)
  have h4: "component_name ?p = component_name ?q"
    by (simp add: NaturalLanguageParser_register_default_mocks_def register_mock_response_def
          mock_base_def)
  have h5: "json_dumps (replying_env ''{}'') = json_dumps (replying_env ''not json'')"
    by (simp add: replying_env_def)
  show ?thesis by (rule fallback_deterministic [OF h1 h2 h3 h4 h5])
qed

end
